theory Spec2Isabelle
  imports Main
begin

section \<open>Data model of the chat application (chat/models.py, accounts/models.py)\<close>

text \<open>
  Primary keys are strings: \<open>Account.acc_id\<close> is a \<open>CharField\<close>, conversations and
  messages carry UUIDs (a key of type \<open>uuid\<close> stands for one UUID, in its canonical text). Points in time (\<open>timezone.now()\<close>) are integers counting
  microseconds, the resolution of Python's \<open>datetime\<close>. Every table is the list of its
  rows.
\<close>

type_synonym acc_key = string
type_synonym uuid = string
type_synonym time = int

text \<open>
  A decoded JSON value (the result of \<open>json.loads\<close>); an object is the list of its
  members, looked up by key. Numbers are integers here.
\<close>

datatype json =
  JNull
  | JBool bool
  | JNum int
  | JStr string
  | JArr "json list"
  | JObj "(string \<times> json) list"

text \<open>
  An account row. \<open>company_name\<close> is the company name of the account's profile,
  \<open>None\<close> when there is no profile or no name.
\<close>

record account =
  acc_id :: acc_key
  email :: string
  full_name :: string
  company_name :: "string option"

text \<open>
  What \<open>self.user\<close> can hold: an \<open>Account\<close> (whose \<open>is_authenticated\<close> is always
  true) or Django's \<open>AnonymousUser\<close> (never authenticated, without an \<open>acc_id\<close>).
\<close>

datatype principal = AnonymousUser | User account

record conversation =
  conversation_id :: uuid
  participants :: "acc_key list"
  updated_at :: time
  encryption_key :: "string option"

text \<open>
  A message row as the database holds it: \<open>message_type\<close> is the text of the
  \<open>CharField\<close>, \<open>attachment\<close> the stored file name of the \<open>FileField\<close> (\<open>None\<close> for
  NULL).
\<close>

record message =
  message_id :: uuid
  msg_conversation :: uuid
  sender :: acc_key
  content :: "string option"
  timestamp :: time
  message_type :: string
  attachment :: "string option"
  is_edited :: bool
  edited_at :: "time option"
  is_deleted :: bool
  reply_to :: "uuid option"

record user_status =
  us_user :: acc_key
  us_status :: string
  last_seen :: time
  is_typing_in :: "uuid option"
  typing_started_at :: "time option"

record store =
  accounts :: "account list"
  conversations :: "conversation list"
  messages :: "message list"
  message_deletions :: "(uuid \<times> acc_key) list"
  conversation_deletions :: "(uuid \<times> acc_key) list"
  message_reactions :: "(uuid \<times> acc_key \<times> string) list"
  read_statuses :: "(uuid \<times> acc_key \<times> time) list"
  user_statuses :: "user_status list"

text \<open>The exceptions the handlers raise or catch.\<close>

datatype exn =
  DoesNotExist
  | MultipleObjectsReturned
  | Http404
  | AttributeError
  | TypeError
  | ValidationError
  | IntegrityError
  | DataError
  | PermissionDenied
  | MessageNotFound

section \<open>Symmetric encryption at rest (Conversation.encrypt\_message, decrypt\_message)\<close>

text \<open>
  \<open>cryptography.fernet\<close> is a third-party library, so it is a parameter of the model:
  \<open>valid_key\<close> says whether \<open>Fernet(key)\<close> constructs (it raises on a key that is not
  32 url-safe base64-encoded bytes), \<open>fencrypt key nonce m\<close> is the token that
  \<open>f.encrypt\<close> produces (the nonce stands for the random IV and the clock),
  \<open>fdecrypt key token\<close> is \<open>None\<close> where \<open>f.decrypt\<close> raises \<open>InvalidToken\<close>.
  Python's \<open>str.encode\<close> and \<open>bytes.decode\<close> are the identity on the model's strings.
\<close>

record fernet =
  valid_key :: "string \<Rightarrow> bool"
  fencrypt :: "string \<Rightarrow> string \<Rightarrow> string \<Rightarrow> string"
  fdecrypt :: "string \<Rightarrow> string \<Rightarrow> string option"

text \<open>Python's \<open>not s\<close> on an optional string: true for \<open>None\<close> and for the empty string.\<close>

fun falsy :: "string option \<Rightarrow> bool" where
  "falsy None = True"
| "falsy (Some s) = (s = [])"

text \<open>
  \<open>encrypt_message\<close> returns the conversation as well, since it stores a freshly
  generated key (\<open>gen\<close>, the result of \<open>Fernet.generate_key()\<close>) when the conversation
  has none.
\<close>

definition encrypt_message ::
  "fernet \<Rightarrow> string \<Rightarrow> string \<Rightarrow> conversation \<Rightarrow> string option \<Rightarrow> conversation \<times> string option" where
  "encrypt_message F gen nonce c m =
     (if falsy m then (c, m)
      else
        let c' = (if falsy (encryption_key c) then c\<lparr>encryption_key := Some gen\<rparr> else c);
            k = the (encryption_key c')
        in if valid_key F k then (c', Some (fencrypt F k nonce (the m))) else (c', m))"

definition decrypt_message :: "fernet \<Rightarrow> conversation \<Rightarrow> string option \<Rightarrow> string option" where
  "decrypt_message F c e =
     (if falsy (encryption_key c) \<or> falsy e then e
      else
        let k = the (encryption_key c)
        in if valid_key F k
           then (case fdecrypt F k (the e) of Some m \<Rightarrow> Some m | None \<Rightarrow> e)
           else e)"

text \<open>A toy cipher to run the definitions on: the token is the key followed by the text.\<close>

definition toy_fernet :: fernet where
  "toy_fernet =
     \<lparr> valid_key = (\<lambda>k. length k = 2),
       fencrypt = (\<lambda>k n m. k @ m),
       fdecrypt = (\<lambda>k t. if take (length k) t = k then Some (drop (length k) t) else None) \<rparr>"

section \<open>Typing state (UserStatus), written by the consumer and the REST view\<close>

text \<open>\<open>Model.objects.get\<close> on the rows that match a filter.\<close>

fun objects_get :: "'a list \<Rightarrow> exn + 'a" where
  "objects_get [] = Inl DoesNotExist"
| "objects_get [r] = Inr r"
| "objects_get (r # r' # rs) = Inl MultipleObjectsReturned"

definition new_user_status :: "acc_key \<Rightarrow> time \<Rightarrow> user_status" where
  "new_user_status u now =
     \<lparr> us_user = u, us_status = ''offline'', last_seen = now,
       is_typing_in = None, typing_started_at = None \<rparr>"

text \<open>
  \<open>UserStatus.objects.get_or_create(user=u)\<close>: the row of \<open>u\<close>, created with the
  model's defaults when there is none.
\<close>

definition user_status_get_or_create :: "store \<Rightarrow> time \<Rightarrow> acc_key \<Rightarrow> exn + (store \<times> user_status)" where
  "user_status_get_or_create db now u =
     (case filter (\<lambda>s. us_user s = u) (user_statuses db) of
        [] \<Rightarrow> Inr (db\<lparr>user_statuses := user_statuses db @ [new_user_status u now]\<rparr>,
                  new_user_status u now)
      | [s] \<Rightarrow> Inr (db, s)
      | _ \<Rightarrow> Inl MultipleObjectsReturned)"

text \<open>\<open>user_status.save(update_fields=[...])\<close> writes the row of that user back.\<close>

definition user_status_save :: "store \<Rightarrow> user_status \<Rightarrow> store" where
  "user_status_save db s =
     db\<lparr>user_statuses := map (\<lambda>r. if us_user r = us_user s then s else r) (user_statuses db)\<rparr>"

definition find_conversation :: "store \<Rightarrow> uuid \<Rightarrow> exn + conversation" where
  "find_conversation db cid = objects_get (filter (\<lambda>c. conversation_id c = cid) (conversations db))"

text \<open>\<open>ChatConsumer.set_typing_status\<close> of the connection of user \<open>u\<close> on conversation \<open>cid\<close>.\<close>

definition set_typing_status :: "store \<Rightarrow> time \<Rightarrow> uuid \<Rightarrow> acc_key \<Rightarrow> bool \<Rightarrow> exn + store" where
  "set_typing_status db now cid u typing =
     (case find_conversation db cid of
        Inl e \<Rightarrow> Inl e
      | Inr c \<Rightarrow>
          (case user_status_get_or_create db now u of
             Inl e \<Rightarrow> Inl e
           | Inr (db', s) \<Rightarrow>
               Inr (user_status_save db'
                      (if typing
                       then s\<lparr>is_typing_in := Some (conversation_id c), typing_started_at := Some now\<rparr>
                       else s\<lparr>is_typing_in := None, typing_started_at := None\<rparr>))))"

text \<open>\<open>timezone.timedelta(seconds=10)\<close>, in microseconds.\<close>

definition typing_window :: int where
  "typing_window = 10 * 1000000"

text \<open>
  \<open>ConversationSerializer.get_typing_users\<close>: the users whose status row points at the
  conversation with \<open>typing_started_at >= now - 10s\<close>, the requesting user excluded.
  Without a request the exclusion is \<open>exclude(user=None)\<close>, which removes no row.
\<close>

definition get_typing_users :: "store \<Rightarrow> time \<Rightarrow> uuid \<Rightarrow> acc_key option \<Rightarrow> acc_key list" where
  "get_typing_users db now obj req_user =
     map us_user
       (filter (\<lambda>s. is_typing_in s = Some obj
                  \<and> (case typing_started_at s of None \<Rightarrow> False | Some t \<Rightarrow> t \<ge> now - typing_window)
                  \<and> (case req_user of None \<Rightarrow> True | Some v \<Rightarrow> us_user s \<noteq> v))
          (user_statuses db))"

definition empty_store :: store where
  "empty_store =
     \<lparr> accounts = [], conversations = [], messages = [], message_deletions = [],
       conversation_deletions = [], message_reactions = [], read_statuses = [],
       user_statuses = [] \<rparr>"

definition conv1 :: conversation where
  "conv1 = \<lparr> conversation_id = ''c1'', participants = [''alice'', ''bob''], updated_at = 0,
             encryption_key = Some ''k1'' \<rparr>"

definition store1 :: store where
  "store1 = empty_store\<lparr>conversations := [conv1]\<rparr>"

section \<open>Wire values and Python helpers\<close>

text \<open>
  What a step reads from outside the repository's code: the clock (one reading of
  \<open>timezone.now()\<close> for the whole step), the UUID the next created message gets, the key
  \<open>Fernet.generate_key()\<close> would return, the nonce of the next encryption, and the
  Fernet library; Python's \<open>uuid.UUID\<close> constructor on a text (\<open>hex=\<close>) and on an
  integer (\<open>int=\<close>), \<open>None\<close> where it raises; Python's \<open>str\<close> on a value that is not a
  string; and whether the database rejects a text longer than its column
  (PostgreSQL does, SQLite does not).
\<close>

record env =
  env_now :: time
  env_uuid :: uuid
  env_key :: string
  env_nonce :: string
  env_fernet :: fernet
  env_uuid_hex :: "string \<Rightarrow> uuid option"
  env_uuid_int :: "int \<Rightarrow> uuid option"
  env_str :: "json \<Rightarrow> string"
  env_strict :: bool

text \<open>Python truthiness of a decoded JSON value (\<open>if not message_id\<close> and the like).\<close>

fun truthy :: "json \<Rightarrow> bool" where
  "truthy JNull = False"
| "truthy (JBool b) = b"
| "truthy (JNum n) = (n \<noteq> 0)"
| "truthy (JStr s) = (s \<noteq> [])"
| "truthy (JArr xs) = (xs \<noteq> [])"
| "truthy (JObj kv) = (kv \<noteq> [])"

text \<open>\<open>data.get(key, default)\<close> on a dict.\<close>

definition dict_get :: "(string \<times> json) list \<Rightarrow> string \<Rightarrow> json \<Rightarrow> json" where
  "dict_get d k dflt = (case map_of d k of None \<Rightarrow> dflt | Some v \<Rightarrow> v)"

text \<open>
  \<open>str.strip()\<close> removes the characters for which \<open>str.isspace\<close> holds from both ends;
  below code point 256 these are the ones listed.
\<close>

definition py_isspace :: "char \<Rightarrow> bool" where
  "py_isspace c = (of_char c \<in> {9, 10, 11, 12, 13, 28, 29, 30, 31, 32, 133, 160 :: nat})"

definition strip :: "string \<Rightarrow> string" where
  "strip s = rev (dropWhile py_isspace (rev (dropWhile py_isspace s)))"

text \<open>
  \<open>data.get(key, "").strip()\<close>: a value that is not a string has no \<open>strip\<close>, and the
  call raises \<open>AttributeError\<close>.
\<close>

definition get_stripped :: "(string \<times> json) list \<Rightarrow> string \<Rightarrow> exn + string" where
  "get_stripped d k =
     (case dict_get d k (JStr []) of JStr s \<Rightarrow> Inr (strip s) | _ \<Rightarrow> Inl AttributeError)"

text \<open>
  A JSON value used as a UUID in a query (\<open>UUIDField.to_python\<close>): an integer, which a
  boolean is in Python, goes through \<open>uuid.UUID(int=value)\<close>, anything else through
  \<open>uuid.UUID(hex=value)\<close>, and what the constructor refuses is a \<open>ValidationError\<close>. A
  list or an object has no \<open>replace\<close>, so the constructor refuses it. The handlers reach
  this with truthy values only, never with \<open>None\<close>.
\<close>

definition uuid_or_invalid :: "uuid option \<Rightarrow> exn + uuid" where
  "uuid_or_invalid r = (case r of None \<Rightarrow> Inl ValidationError | Some k \<Rightarrow> Inr k)"

fun to_uuid :: "env \<Rightarrow> json \<Rightarrow> exn + uuid" where
  "to_uuid E (JStr s) = uuid_or_invalid (env_uuid_hex E s)"
| "to_uuid E (JNum n) = uuid_or_invalid (env_uuid_int E n)"
| "to_uuid E (JBool b) = uuid_or_invalid (env_uuid_int E (if b then 1 else 0))"
| "to_uuid E v = Inl ValidationError"

text \<open>
  A JSON value written to or looked up in a text column (\<open>CharField.to_python\<close>, and
  \<open>FileField.get_prep_value\<close> alike): \<open>None\<close> and strings stay, anything else becomes
  its \<open>str\<close>.
\<close>

fun char_prep :: "env \<Rightarrow> json \<Rightarrow> string option" where
  "char_prep E JNull = None"
| "char_prep E (JStr s) = Some s"
| "char_prep E v = Some (env_str E v)"

text \<open>
  Whether the database takes a text into a column of the given length; which of several
  violated constraints an \<open>INSERT\<close> reports is the database's choice.
\<close>

definition fits :: "env \<Rightarrow> nat \<Rightarrow> string \<Rightarrow> bool" where
  "fits E n s = (\<not> env_strict E \<or> length s \<le> n)"

text \<open>\<open>str(e)\<close> of a caught exception, as it is appended to the error messages.\<close>

fun exn_str :: "exn \<Rightarrow> string" where
  "exn_str DoesNotExist = ''matching query does not exist.''"
| "exn_str MultipleObjectsReturned = ''get() returned more than one row''"
| "exn_str Http404 = ''No object matches the given query.''"
| "exn_str AttributeError = ''object has no attribute''"
| "exn_str TypeError = ''unhashable type''"
| "exn_str ValidationError = ''is not a valid UUID.''"
| "exn_str IntegrityError = ''violates a constraint of the table''"
| "exn_str DataError = ''value too long for type character varying''"
| "exn_str PermissionDenied = ''You do not have permission to delete this message''"
| "exn_str MessageNotFound = ''Message not found''"

section \<open>Serializers (chat/serializers.py)\<close>

text \<open>
  \<open>UserDisplaySerializer\<close>: the account's key, e-mail and display name (the profile
  picture and the status block are presentation only and left out).
\<close>

record user_data =
  ud_acc_id :: acc_key
  ud_email :: string
  ud_display_name :: string

definition get_display_name :: "account \<Rightarrow> string" where
  "get_display_name a =
     (if \<not> falsy (company_name a) then the (company_name a)
      else if full_name a \<noteq> [] then full_name a
      else email a)"

definition user_display :: "account \<Rightarrow> user_data" where
  "user_display a =
     \<lparr> ud_acc_id = acc_id a, ud_email = email a, ud_display_name = get_display_name a \<rparr>"

text \<open>
  \<open>MessageSerializer\<close> on a message read from the database, with the fields the hub's
  decisions show in: \<open>content\<close> is \<open>None\<close> when the user of the request has a
  \<open>MessageDeletion\<close> row for the message, and the decrypted content otherwise
  (reactions, reply preview and the attachment's URL are left out). The type is a JSON
  value, since the consumer serializes a message it has just built with the value of the
  frame.
\<close>

record serialized_message =
  sm_message_id :: uuid
  sm_content :: "string option"
  sm_timestamp :: time
  sm_message_type :: json
  sm_sender :: acc_key
  sm_is_edited :: bool
  sm_edited_at :: "time option"
  sm_is_deleted_by_me :: bool

definition find_message :: "store \<Rightarrow> uuid \<Rightarrow> exn + message" where
  "find_message db mid = objects_get (filter (\<lambda>m. message_id m = mid) (messages db))"

text \<open>\<open>Message.get_decrypted_content\<close>; following the foreign key can fail only on a dangling row.\<close>

definition get_decrypted_content :: "fernet \<Rightarrow> store \<Rightarrow> message \<Rightarrow> exn + string option" where
  "get_decrypted_content F db m =
     (case find_conversation db (msg_conversation m) of
        Inl e \<Rightarrow> Inl e
      | Inr c \<Rightarrow> Inr (decrypt_message F c (content m)))"

definition get_content :: "fernet \<Rightarrow> store \<Rightarrow> acc_key option \<Rightarrow> message \<Rightarrow> exn + string option" where
  "get_content F db req_user m =
     (case req_user of
        Some u \<Rightarrow>
          if (message_id m, u) \<in> set (message_deletions db) then Inr None
          else get_decrypted_content F db m
      | None \<Rightarrow> get_decrypted_content F db m)"

definition get_is_deleted_by_me :: "store \<Rightarrow> acc_key option \<Rightarrow> message \<Rightarrow> bool" where
  "get_is_deleted_by_me db req_user m =
     (case req_user of
        Some u \<Rightarrow> (message_id m, u) \<in> set (message_deletions db)
      | None \<Rightarrow> False)"

definition serialize_message :: "fernet \<Rightarrow> store \<Rightarrow> acc_key option \<Rightarrow> message \<Rightarrow> exn + serialized_message" where
  "serialize_message F db req_user m =
     (case get_content F db req_user m of
        Inl e \<Rightarrow> Inl e
      | Inr c \<Rightarrow>
          Inr \<lparr> sm_message_id = message_id m, sm_content = c, sm_timestamp = timestamp m,
                sm_message_type = JStr (message_type m), sm_sender = sender m,
                sm_is_edited = is_edited m, sm_edited_at = edited_at m,
                sm_is_deleted_by_me = get_is_deleted_by_me db req_user m \<rparr>)"

text \<open>
  \<open>MessageReactionSerializer\<close>: reaction, user and creation time. The reaction is the
  value the object was built with (the field is a \<open>ChoiceField\<close>, which hands through a
  value that is no key of the choices).
\<close>

record serialized_reaction =
  sr_reaction :: json
  sr_user :: user_data
  sr_created_at :: time

section \<open>Channel-layer events, outbound frames and effects\<close>

text \<open>
  The events handed to \<open>channel_layer.group_send\<close>; \<open>event_type\<close> is the \<open>type\<close> entry,
  which names the consumer method that handles the event. An event about a message carries
  the UUID its \<open>message_id\<close> entry denotes: the handlers put the value of the frame there,
  the views the canonical text of the UUID of the URL.
\<close>

datatype layer_event =
  ChatMessageBroadcast serialized_message
  | MessageEditedBroadcast serialized_message
  | MessageDeletedBroadcast uuid user_data time
  | MessageRestoredBroadcast serialized_message
  | ReactionBroadcast uuid json user_data string "serialized_reaction option" time
  | ReadReceiptBroadcast uuid user_data time
  | UserTypingBroadcast user_data json time
  | StatusBroadcast user_data string time


text \<open>The frames a consumer writes to its own socket with \<open>self.send\<close>.\<close>

datatype frame_out =
  OutChatMessage serialized_message
  | OutMessageEdited serialized_message
  | OutMessageDeleted uuid user_data time
  | OutMessageRestored serialized_message
  | OutReaction uuid json user_data string "serialized_reaction option" time
  | OutReadReceipt uuid user_data time
  | OutUserTyping user_data json time
  | OutUserStatus user_data string time
  | OutError string time
  | OutPong time

text \<open>
  What a handler does besides changing the store, in order: frames to its own socket,
  events published to a group, joining and leaving a group, accepting or closing the
  connection, and an exception that leaves the handler uncaught.
\<close>

datatype effect =
  Send frame_out
  | GroupSend string layer_event
  | GroupAdd string string
  | GroupDiscard string string
  | Accept
  | Close nat
  | Raise exn

text \<open>
  The state of one \<open>ChatConsumer\<close>: its channel, the conversation of its URL, the group
  name derived from it, and \<open>self.user\<close>.
\<close>

record consumer =
  channel_name :: string
  self_conversation_id :: uuid
  room_group_name :: string
  self_user :: "principal option"

text \<open>
  The guard every handler starts with,
  \<open>hasattr(self, 'user') and self.user and self.user.is_authenticated\<close>: the account when
  it passes.
\<close>

fun auth_account :: "principal option \<Rightarrow> account option" where
  "auth_account (Some (User a)) = Some a"
| "auth_account _ = None"

definition send_error :: "string \<Rightarrow> time \<Rightarrow> effect" where
  "send_error msg now = Send (OutError msg now)"

section \<open>Broadcasters: what a consumer does with an event of its group\<close>

definition user_has_deleted_message :: "store \<Rightarrow> consumer \<Rightarrow> uuid \<Rightarrow> bool" where
  "user_has_deleted_message db c mid =
     (case auth_account (self_user c) of
        Some a \<Rightarrow> (mid, acc_id a) \<in> set (message_deletions db)
      | None \<Rightarrow> False)"

text \<open>
  The guard of the read-receipt, typing and status broadcasters:
  \<open>self.user and event["user_data"]["acc_id"] != self.user.acc_id\<close>. An
  \<open>AnonymousUser\<close> has no \<open>acc_id\<close>: the handler raises and nothing is sent.
\<close>

definition not_from_me :: "consumer \<Rightarrow> user_data \<Rightarrow> bool" where
  "not_from_me c ud =
     (case auth_account (self_user c) of
        Some a \<Rightarrow> ud_acc_id ud \<noteq> acc_id a
      | None \<Rightarrow> False)"

fun broadcaster :: "store \<Rightarrow> consumer \<Rightarrow> layer_event \<Rightarrow> frame_out option" where
  "broadcaster db c (ChatMessageBroadcast m) = Some (OutChatMessage m)"
| "broadcaster db c (MessageEditedBroadcast m) = Some (OutMessageEdited m)"
| "broadcaster db c (MessageDeletedBroadcast mid ud ts) =
     (if \<not> user_has_deleted_message db c mid then Some (OutMessageDeleted mid ud ts) else None)"
| "broadcaster db c (MessageRestoredBroadcast m) = Some (OutMessageRestored m)"
| "broadcaster db c (ReactionBroadcast mid r ud action rd ts) =
     Some (OutReaction mid r ud action rd ts)"
| "broadcaster db c (ReadReceiptBroadcast mid ud ts) =
     (if not_from_me c ud then Some (OutReadReceipt mid ud ts) else None)"
| "broadcaster db c (UserTypingBroadcast ud t ts) =
     (if not_from_me c ud then Some (OutUserTyping ud t ts) else None)"
| "broadcaster db c (StatusBroadcast ud s ts) =
     (if not_from_me c ud then Some (OutUserStatus ud s ts) else None)"

text \<open>
  \<open>channel_layer.group_send\<close>: the event reaches every consumer whose channel is in the
  group (\<open>groups\<close> holds the pairs of group and channel), and each runs its broadcaster.
  The result lists the frames written, by channel.
\<close>

definition group_send ::
  "store \<Rightarrow> (string \<times> string) list \<Rightarrow> consumer list \<Rightarrow> string \<Rightarrow> layer_event \<Rightarrow> (string \<times> frame_out) list" where
  "group_send db groups cs g ev =
     concat (map (\<lambda>c. case broadcaster db c ev of
                          None \<Rightarrow> []
                        | Some f \<Rightarrow> [(channel_name c, f)])
                 (filter (\<lambda>c. (g, channel_name c) \<in> set groups) cs))"

section \<open>Store operations of the consumer (chat/consumers.py, database helpers)\<close>

text \<open>\<open>get_object_or_404\<close>: a missing row is \<open>Http404\<close>.\<close>

fun get_object_or_404 :: "exn + 'a \<Rightarrow> exn + 'a" where
  "get_object_or_404 (Inl DoesNotExist) = Inl Http404"
| "get_object_or_404 r = r"

text \<open>Saving a row writes it over the row with the same primary key.\<close>

definition conversation_save :: "store \<Rightarrow> conversation \<Rightarrow> store" where
  "conversation_save db c =
     db\<lparr>conversations :=
          map (\<lambda>r. if conversation_id r = conversation_id c then c else r) (conversations db)\<rparr>"

definition message_row_save :: "store \<Rightarrow> message \<Rightarrow> store" where
  "message_row_save db m =
     db\<lparr>messages := map (\<lambda>r. if message_id r = message_id m then m else r) (messages db)\<rparr>"

text \<open>
  The first half of \<open>Message.save\<close>: non-empty content is replaced by its encryption under
  the conversation's key (which \<open>encrypt_message\<close> creates and stores when missing).
\<close>

definition message_encrypt :: "env \<Rightarrow> store \<Rightarrow> conversation \<Rightarrow> message \<Rightarrow> store \<times> conversation \<times> message" where
  "message_encrypt E db c m =
     (if falsy (content m) then (db, c, m)
      else
        let r = encrypt_message (env_fernet E) (env_key E) (env_nonce E) c (content m);
            c' = fst r
        in ((if falsy (encryption_key c) then conversation_save db c' else db),
            c', m\<lparr>content := snd r\<rparr>))"

text \<open>The reply target of a new message: an unknown id is ignored, a malformed one raises.\<close>

definition lookup_reply_to :: "env \<Rightarrow> store \<Rightarrow> json \<Rightarrow> exn + uuid option" where
  "lookup_reply_to E db reply_to_id =
     (if truthy reply_to_id
      then (case to_uuid E reply_to_id of
              Inl e \<Rightarrow> Inl e
            | Inr rid \<Rightarrow>
                (case find_message db rid of
                   Inr r \<Rightarrow> Inr (Some (message_id r))
                 | Inl DoesNotExist \<Rightarrow> Inr None
                 | Inl e \<Rightarrow> Inl e))
      else Inr None)"

text \<open>
  What \<open>FileField.pre_save\<close> does with the attachment of the frame: a truthy value that
  is not a string has no \<open>_committed\<close>, and reading it raises.
\<close>

fun attachment_pre_save :: "json \<Rightarrow> exn + unit" where
  "attachment_pre_save (JStr s) = Inr ()"
| "attachment_pre_save v = (if truthy v then Inl AttributeError else Inr ())"

text \<open>
  \<open>save_message\<close>. The result carries the store also when the call raises: \<open>Message.save\<close>
  encrypts the content first, which stores a new key in a conversation without one, and
  only then reaches \<open>pre_save\<close> and the \<open>INSERT\<close> (where a NULL type, a text too long
  for its column or a used primary key is refused).
\<close>

definition save_message ::
  "env \<Rightarrow> store \<Rightarrow> uuid \<Rightarrow> account \<Rightarrow> string \<Rightarrow> json \<Rightarrow> json \<Rightarrow> json \<Rightarrow> store \<times> (exn + message)" where
  "save_message E db cid a txt reply_to_id attach mtype =
     (case get_object_or_404 (find_conversation db cid) of
        Inl e \<Rightarrow> (db, Inl e)
      | Inr conv \<Rightarrow>
          (case lookup_reply_to E db reply_to_id of
             Inl e \<Rightarrow> (db, Inl e)
           | Inr reply \<Rightarrow>
               let m0 = \<lparr> message_id = env_uuid E, msg_conversation = conversation_id conv,
                          sender = acc_id a, content = Some txt, timestamp = env_now E,
                          message_type = (case char_prep E mtype of None \<Rightarrow> [] | Some s \<Rightarrow> s),
                          attachment = char_prep E attach,
                          is_edited = False, edited_at = None,
                          is_deleted = False, reply_to = reply \<rparr>;
                   enc = message_encrypt E db conv m0;
                   db1 = fst enc; conv' = fst (snd enc); m = snd (snd enc);
                   db2 = db1\<lparr>messages := m # messages db1\<rparr>;
                   db3 = conversation_save db2 (conv'\<lparr>updated_at := env_now E\<rparr>)
               in case attachment_pre_save attach of
                    Inl e \<Rightarrow> (db1, Inl e)
                  | Inr u \<Rightarrow>
                      if char_prep E mtype = None then (db1, Inl IntegrityError)
                      else if \<not> fits E 10 (message_type m)
                              \<or> \<not> fits E 100 (case attachment m of None \<Rightarrow> [] | Some s \<Rightarrow> s)
                      then (db1, Inl DataError)
                      else if env_uuid E \<in> set (map message_id (messages db))
                      then (db1, Inl IntegrityError)
                      else (db3, Inr m)))"

definition edit_message :: "env \<Rightarrow> store \<Rightarrow> account \<Rightarrow> json \<Rightarrow> string \<Rightarrow> exn + (store \<times> message)" where
  "edit_message E db a mid new_content =
     (case to_uuid E mid of
        Inl e \<Rightarrow> Inl e
      | Inr k \<Rightarrow>
          (case get_object_or_404
                  (objects_get (filter (\<lambda>m. message_id m = k \<and> sender m = acc_id a) (messages db))) of
             Inl e \<Rightarrow> Inl e
           | Inr m \<Rightarrow>
               (case find_conversation db (msg_conversation m) of
                  Inl e \<Rightarrow> Inl e
                | Inr conv \<Rightarrow>
                    let m1 = m\<lparr>content := Some new_content, is_edited := True,
                               edited_at := Some (env_now E)\<rparr>;
                        enc = message_encrypt E db conv m1;
                        m2 = snd (snd enc)
                    in Inr (message_row_save (fst enc) m2, m2))))"

text \<open>\<open>MessageDeletion.objects.get_or_create(message, user)\<close>, with the \<open>created\<close> flag.\<close>

definition deletion_get_or_create :: "store \<Rightarrow> uuid \<Rightarrow> acc_key \<Rightarrow> exn + (store \<times> bool)" where
  "deletion_get_or_create db mid u =
     (case filter (\<lambda>r. r = (mid, u)) (message_deletions db) of
        [] \<Rightarrow> Inr (db\<lparr>message_deletions := message_deletions db @ [(mid, u)]\<rparr>, True)
      | [r] \<Rightarrow> Inr (db, False)
      | _ \<Rightarrow> Inl MultipleObjectsReturned)"

definition delete_message_for_user :: "env \<Rightarrow> store \<Rightarrow> account \<Rightarrow> json \<Rightarrow> exn + store" where
  "delete_message_for_user E db a mid =
     (case to_uuid E mid of
        Inl e \<Rightarrow> Inl e
      | Inr k \<Rightarrow>
          (case get_object_or_404 (find_message db k) of
             Inl e \<Rightarrow> Inl e
           | Inr m \<Rightarrow>
               (case find_conversation db (msg_conversation m) of
                  Inl e \<Rightarrow> Inl e
                | Inr conv \<Rightarrow>
                    if acc_id a \<notin> set (participants conv) then Inl PermissionDenied
                    else (case deletion_get_or_create db (message_id m) (acc_id a) of
                            Inl e \<Rightarrow> Inl e
                          | Inr r \<Rightarrow> Inr (fst r)))))"

text \<open>
  \<open>MessageReaction.objects.get_or_create(message, user, reaction)\<close> followed by the
  toggle: an existing row is deleted, a new one stays. The kind is looked up and stored
  as the text the column holds (\<open>char_prep\<close>); the serialized reaction, built only when
  the row is new, shows the value the object was built with. A NULL kind matches no row
  and cannot be inserted.
\<close>

definition reaction_toggle ::
  "env \<Rightarrow> store \<Rightarrow> account \<Rightarrow> uuid \<Rightarrow> json \<Rightarrow> exn + (store \<times> string \<times> serialized_reaction option)" where
  "reaction_toggle E db a k reaction =
     (case char_prep E reaction of
        None \<Rightarrow> Inl IntegrityError
      | Some kind \<Rightarrow>
          (case filter (\<lambda>r. r = (k, acc_id a, kind)) (message_reactions db) of
             [] \<Rightarrow>
               if fits E 10 kind
               then Inr (db\<lparr>message_reactions := message_reactions db @ [(k, acc_id a, kind)]\<rparr>,
                         ''added'',
                         Some \<lparr> sr_reaction = reaction, sr_user = user_display a,
                                sr_created_at = env_now E \<rparr>)
               else Inl DataError
           | [r] \<Rightarrow>
               Inr (db\<lparr>message_reactions := remove1 r (message_reactions db)\<rparr>, ''removed'', None)
           | _ \<Rightarrow> Inl MultipleObjectsReturned))"

definition toggle_reaction ::
  "env \<Rightarrow> store \<Rightarrow> account \<Rightarrow> json \<Rightarrow> json \<Rightarrow> exn + (store \<times> string \<times> serialized_reaction option)" where
  "toggle_reaction E db a mid reaction =
     (case to_uuid E mid of
        Inl e \<Rightarrow> Inl e
      | Inr k \<Rightarrow>
          (case find_message db k of
             Inl DoesNotExist \<Rightarrow> Inl MessageNotFound
           | Inl e \<Rightarrow> Inl e
           | Inr m \<Rightarrow> reaction_toggle E db a (message_id m) reaction))"

text \<open>\<open>MessageReadStatus.objects.update_or_create(user, message, defaults={'read_at': now})\<close>.\<close>

definition read_status_update_or_create :: "store \<Rightarrow> time \<Rightarrow> uuid \<Rightarrow> acc_key \<Rightarrow> exn + store" where
  "read_status_update_or_create db now k u =
     (case filter (\<lambda>r. fst r = k \<and> fst (snd r) = u) (read_statuses db) of
        [] \<Rightarrow> Inr (db\<lparr>read_statuses := read_statuses db @ [(k, u, now)]\<rparr>)
      | [r] \<Rightarrow>
          Inr (db\<lparr>read_statuses :=
                    map (\<lambda>x. if fst x = k \<and> fst (snd x) = u then (k, u, now) else x)
                      (read_statuses db)\<rparr>)
      | _ \<Rightarrow> Inl MultipleObjectsReturned)"

definition mark_message_read :: "env \<Rightarrow> store \<Rightarrow> account \<Rightarrow> json \<Rightarrow> exn + store" where
  "mark_message_read E db a mid =
     (case to_uuid E mid of
        Inl e \<Rightarrow> Inl e
      | Inr k \<Rightarrow>
          (case find_message db k of
             Inl DoesNotExist \<Rightarrow> Inl MessageNotFound
           | Inl e \<Rightarrow> Inl e
           | Inr m \<Rightarrow> read_status_update_or_create db (env_now E) (message_id m) (acc_id a)))"

definition set_user_status :: "store \<Rightarrow> time \<Rightarrow> account \<Rightarrow> string \<Rightarrow> exn + store" where
  "set_user_status db now a st =
     (case user_status_get_or_create db now (acc_id a) of
        Inl e \<Rightarrow> Inl e
      | Inr r \<Rightarrow> Inr (user_status_save (fst r) ((snd r)\<lparr>us_status := st, last_seen := now\<rparr>)))"

text \<open>\<open>clear_typing_status\<close>: a user without a status row is left alone.\<close>

definition clear_typing_status :: "store \<Rightarrow> account \<Rightarrow> exn + store" where
  "clear_typing_status db a =
     (case objects_get (filter (\<lambda>s. us_user s = acc_id a) (user_statuses db)) of
        Inr s \<Rightarrow> Inr (user_status_save db (s\<lparr>is_typing_in := None, typing_started_at := None\<rparr>))
      | Inl DoesNotExist \<Rightarrow> Inr db
      | Inl e \<Rightarrow> Inl e)"

section \<open>Inbound handlers (ChatConsumer.handle\_*), and receive\<close>

text \<open>
  A handler returns the new store and its effects, or the exception that escapes it (only
  code outside its \<open>try\<close> block can raise: the \<open>strip\<close> of a non-string). An exception
  caught inside keeps the writes made before it, as the database does.
\<close>

text \<open>
  \<open>ChatConsumer.serialize_message\<close>: the serializer runs with a \<open>MockRequest\<close> that has
  a user and nothing else. For a message with a file the attachment field calls the
  request's \<open>build_absolute_uri\<close>, which the mock does not have, and the call raises.
  \<open>has_file\<close> is the truth value of the message object's attachment, \<open>mtype\<close> the
  message type as the object holds it.
\<close>

definition consumer_serialize_message ::
  "fernet \<Rightarrow> store \<Rightarrow> account \<Rightarrow> message \<Rightarrow> bool \<Rightarrow> json \<Rightarrow> exn + serialized_message" where
  "consumer_serialize_message F db a m has_file mtype =
     (case serialize_message F db (Some (acc_id a)) m of
        Inl e \<Rightarrow> Inl e
      | Inr sm \<Rightarrow> if has_file then Inl AttributeError else Inr (sm\<lparr>sm_message_type := mtype\<rparr>))"

definition handle_chat_message ::
  "env \<Rightarrow> store \<Rightarrow> consumer \<Rightarrow> (string \<times> json) list \<Rightarrow> exn + (store \<times> effect list)" where
  "handle_chat_message E db c d =
     (case auth_account (self_user c) of
        None \<Rightarrow> Inr (db, [send_error ''Authentication required'' (env_now E)])
      | Some a \<Rightarrow>
          (case get_stripped d ''message'' of
             Inl e \<Rightarrow> Inl e
           | Inr message_content \<Rightarrow>
               if message_content = []
               then Inr (db, [send_error ''Message content cannot be empty'' (env_now E)])
               else
                 (let saved = save_message E db (self_conversation_id c) a message_content
                                (dict_get d ''reply_to'' JNull) (dict_get d ''attachment'' JNull)
                                (dict_get d ''message_type'' (JStr ''text''))
                  in case snd saved of
                       Inl e \<Rightarrow>
                         Inr (fst saved,
                              [send_error (''Failed to save message: '' @ exn_str e) (env_now E)])
                     | Inr m \<Rightarrow>
                         (case consumer_serialize_message (env_fernet E) (fst saved) a m
                                 (truthy (dict_get d ''attachment'' JNull))
                                 (dict_get d ''message_type'' (JStr ''text'')) of
                            Inl e \<Rightarrow>
                              Inr (fst saved,
                                   [send_error (''Failed to save message: '' @ exn_str e) (env_now E)])
                          | Inr sm \<Rightarrow>
                              (case clear_typing_status (fst saved) a of
                                 Inl e \<Rightarrow>
                                   Inr (fst saved,
                                        [GroupSend (room_group_name c) (ChatMessageBroadcast sm),
                                         send_error (''Failed to save message: '' @ exn_str e)
                                           (env_now E)])
                               | Inr db' \<Rightarrow>
                                   Inr (db', [GroupSend (room_group_name c)
                                                (ChatMessageBroadcast sm)]))))))"

definition handle_message_edit ::
  "env \<Rightarrow> store \<Rightarrow> consumer \<Rightarrow> (string \<times> json) list \<Rightarrow> exn + (store \<times> effect list)" where
  "handle_message_edit E db c d =
     (case auth_account (self_user c) of
        None \<Rightarrow> Inr (db, [send_error ''Authentication required'' (env_now E)])
      | Some a \<Rightarrow>
          (case get_stripped d ''message'' of
             Inl e \<Rightarrow> Inl e
           | Inr new_content \<Rightarrow>
               if \<not> truthy (dict_get d ''message_id'' JNull) \<or> new_content = []
               then Inr (db, [send_error ''Message ID and content are required'' (env_now E)])
               else
                 (case edit_message E db a (dict_get d ''message_id'' JNull) new_content of
                    Inl e \<Rightarrow>
                      Inr (db, [send_error (''Failed to edit message: '' @ exn_str e) (env_now E)])
                  | Inr saved \<Rightarrow>
                      (case consumer_serialize_message (env_fernet E) (fst saved) a (snd saved)
                              (\<not> falsy (attachment (snd saved)))
                              (JStr (message_type (snd saved))) of
                         Inl e \<Rightarrow>
                           Inr (fst saved,
                                [send_error (''Failed to edit message: '' @ exn_str e) (env_now E)])
                       | Inr sm \<Rightarrow>
                           Inr (fst saved,
                                [GroupSend (room_group_name c) (MessageEditedBroadcast sm)])))))"

definition handle_message_delete ::
  "env \<Rightarrow> store \<Rightarrow> consumer \<Rightarrow> (string \<times> json) list \<Rightarrow> exn + (store \<times> effect list)" where
  "handle_message_delete E db c d =
     (case auth_account (self_user c) of
        None \<Rightarrow> Inr (db, [send_error ''Authentication required'' (env_now E)])
      | Some a \<Rightarrow>
          if \<not> truthy (dict_get d ''message_id'' JNull)
          then Inr (db, [send_error ''Message ID is required'' (env_now E)])
          else
            (case delete_message_for_user E db a (dict_get d ''message_id'' JNull) of
               Inl e \<Rightarrow>
                 Inr (db, [send_error (''Failed to delete message: '' @ exn_str e) (env_now E)])
             | Inr db' \<Rightarrow>
                 (case to_uuid E (dict_get d ''message_id'' JNull) of
                    Inl e \<Rightarrow>
                      Inr (db', [send_error (''Failed to delete message: '' @ exn_str e) (env_now E)])
                  | Inr k \<Rightarrow>
                      Inr (db', [GroupSend (room_group_name c)
                                   (MessageDeletedBroadcast k (user_display a) (env_now E))]))))"

definition handle_reaction ::
  "env \<Rightarrow> store \<Rightarrow> consumer \<Rightarrow> (string \<times> json) list \<Rightarrow> exn + (store \<times> effect list)" where
  "handle_reaction E db c d =
     (case auth_account (self_user c) of
        None \<Rightarrow> Inr (db, [send_error ''Authentication required'' (env_now E)])
      | Some a \<Rightarrow>
          if \<not> truthy (dict_get d ''message_id'' JNull) \<or> \<not> truthy (dict_get d ''reaction'' JNull)
          then Inr (db, [send_error ''Message ID and reaction are required'' (env_now E)])
          else
            (case toggle_reaction E db a (dict_get d ''message_id'' JNull)
                    (dict_get d ''reaction'' JNull) of
               Inl e \<Rightarrow>
                 Inr (db, [send_error (''Failed to process reaction: '' @ exn_str e) (env_now E)])
             | Inr r \<Rightarrow>
                 (case to_uuid E (dict_get d ''message_id'' JNull) of
                    Inl e \<Rightarrow>
                      Inr (fst r,
                           [send_error (''Failed to process reaction: '' @ exn_str e) (env_now E)])
                  | Inr k \<Rightarrow>
                      Inr (fst r,
                           [GroupSend (room_group_name c)
                              (ReactionBroadcast k (dict_get d ''reaction'' JNull) (user_display a)
                                 (fst (snd r)) (snd (snd r)) (env_now E))]))))"

definition handle_read_receipt ::
  "env \<Rightarrow> store \<Rightarrow> consumer \<Rightarrow> (string \<times> json) list \<Rightarrow> exn + (store \<times> effect list)" where
  "handle_read_receipt E db c d =
     (case auth_account (self_user c) of
        None \<Rightarrow> Inr (db, [])
      | Some a \<Rightarrow>
          if \<not> truthy (dict_get d ''message_id'' JNull) then Inr (db, [])
          else
            (case mark_message_read E db a (dict_get d ''message_id'' JNull) of
               Inl e \<Rightarrow>
                 Inr (db, [send_error (''Failed to mark message as read: '' @ exn_str e) (env_now E)])
             | Inr db' \<Rightarrow>
                 (case to_uuid E (dict_get d ''message_id'' JNull) of
                    Inl e \<Rightarrow>
                      Inr (db', [send_error (''Failed to mark message as read: '' @ exn_str e)
                                   (env_now E)])
                  | Inr k \<Rightarrow>
                      Inr (db', [GroupSend (room_group_name c)
                                   (ReadReceiptBroadcast k (user_display a) (env_now E))]))))"

definition handle_user_typing ::
  "env \<Rightarrow> store \<Rightarrow> consumer \<Rightarrow> (string \<times> json) list \<Rightarrow> exn + (store \<times> effect list)" where
  "handle_user_typing E db c d =
     (case auth_account (self_user c) of
        None \<Rightarrow> Inr (db, [])
      | Some a \<Rightarrow>
          (case set_typing_status db (env_now E) (self_conversation_id c) (acc_id a)
                  (truthy (dict_get d ''is_typing'' (JBool False))) of
             Inl e \<Rightarrow>
               Inr (db, [send_error (''Failed to update typing status: '' @ exn_str e) (env_now E)])
           | Inr db' \<Rightarrow>
               Inr (db', [GroupSend (room_group_name c)
                            (UserTypingBroadcast (user_display a)
                               (dict_get d ''is_typing'' (JBool False)) (env_now E))])))"

definition handle_ping :: "env \<Rightarrow> store \<Rightarrow> exn + (store \<times> effect list)" where
  "handle_ping E db = Inr (db, [Send (OutPong (env_now E))])"

text \<open>
  \<open>receive\<close>: \<open>text_data\<close> is the result of \<open>json.loads\<close> on the frame, \<open>None\<close> when it
  raises \<open>JSONDecodeError\<close>. A decoded value that is not an object has no \<open>get\<close>, which
  the last \<open>except\<close> clause turns into a server-error event, like any exception that
  escapes a handler.
\<close>

definition receive :: "env \<Rightarrow> store \<Rightarrow> consumer \<Rightarrow> json option \<Rightarrow> store \<times> effect list" where
  "receive E db c text_data =
     (case text_data of
        None \<Rightarrow> (db, [send_error ''Invalid JSON format'' (env_now E)])
      | Some (JObj d) \<Rightarrow>
          (let event = dict_get d ''type'' JNull;
               r = (if event = JStr ''chat_message'' then handle_chat_message E db c d
                    else if event = JStr ''message_edit'' then handle_message_edit E db c d
                    else if event = JStr ''message_delete'' then handle_message_delete E db c d
                    else if event = JStr ''reaction'' then handle_reaction E db c d
                    else if event = JStr ''read_receipt'' then handle_read_receipt E db c d
                    else if event = JStr ''user_typing'' then handle_user_typing E db c d
                    else if event = JStr ''ping'' then handle_ping E db
                    else Inr (db, [send_error ''Unknown event type'' (env_now E)]))
           in case r of
                Inl e \<Rightarrow> (db, [send_error (''Server error: '' @ exn_str e) (env_now E)])
              | Inr x \<Rightarrow> x)
      | Some _ \<Rightarrow> (db, [send_error (''Server error: '' @ exn_str AttributeError) (env_now E)]))"

section \<open>Handshake and disconnect (ChatConsumer.connect, disconnect)\<close>

text \<open>
  The connection's scope: the conversation of the URL, the \<open>token\<close> query parameter and
  the user a session middleware may have put there.
\<close>

record scope =
  url_conversation_id :: uuid
  query_token :: "string option"
  scope_user :: "principal option"

text \<open>
  \<open>authenticate_user\<close>. The JWT library is a parameter: \<open>jwt token\<close> is \<open>None\<close> when
  validating or decoding the token raises, and otherwise the \<open>user_id\<close> claim of the token
  (\<open>None\<close> when it has none).
\<close>

definition authenticate_user ::
  "(string \<Rightarrow> string option option) \<Rightarrow> store \<Rightarrow> scope \<Rightarrow> principal option" where
  "authenticate_user jwt db sc =
     (if \<not> falsy (query_token sc)
      then (case jwt (the (query_token sc)) of
              None \<Rightarrow> None
            | Some claim \<Rightarrow>
                if falsy claim then None
                else (case objects_get (filter (\<lambda>a. acc_id a = the claim) (accounts db)) of
                        Inr a \<Rightarrow> Some (User a)
                      | Inl e \<Rightarrow> None))
      else scope_user sc)"

definition verify_conversation_access :: "store \<Rightarrow> uuid \<Rightarrow> account \<Rightarrow> exn + bool" where
  "verify_conversation_access db cid a =
     (case objects_get (filter (\<lambda>c. conversation_id c = cid \<and> acc_id a \<in> set (participants c))
                          (conversations db)) of
        Inr conv \<Rightarrow> Inr ((conversation_id conv, acc_id a) \<notin> set (conversation_deletions db))
      | Inl DoesNotExist \<Rightarrow> Inr False
      | Inl e \<Rightarrow> Inl e)"

definition connect ::
  "(string \<Rightarrow> string option option) \<Rightarrow> time \<Rightarrow> store \<Rightarrow> string \<Rightarrow> scope \<Rightarrow> consumer \<times> store \<times> effect list" where
  "connect jwt now db ch sc =
     (let c = \<lparr> channel_name = ch, self_conversation_id = url_conversation_id sc,
                room_group_name = ''chat_'' @ url_conversation_id sc,
                self_user = authenticate_user jwt db sc \<rparr>
      in case auth_account (self_user c) of
           None \<Rightarrow> (c, db, [Close 4001])
         | Some a \<Rightarrow>
             (case verify_conversation_access db (self_conversation_id c) a of
                Inl e \<Rightarrow> (c, db, [Raise e])
              | Inr has_access \<Rightarrow>
                  if \<not> has_access then (c, db, [Close 4003])
                  else
                    (case set_user_status db now a ''online'' of
                       Inl e \<Rightarrow> (c, db, [GroupAdd (room_group_name c) ch, Accept, Raise e])
                     | Inr db' \<Rightarrow>
                         (c, db',
                          [GroupAdd (room_group_name c) ch, Accept,
                           GroupSend (room_group_name c)
                             (StatusBroadcast (user_display a) ''online'' now)]))))"

definition disconnect :: "time \<Rightarrow> store \<Rightarrow> consumer \<Rightarrow> store \<times> effect list" where
  "disconnect now db c =
     (case auth_account (self_user c) of
        None \<Rightarrow> (db, [GroupDiscard (room_group_name c) (channel_name c)])
      | Some a \<Rightarrow>
          (case clear_typing_status db a of
             Inl e \<Rightarrow> (db, [GroupDiscard (room_group_name c) (channel_name c), Raise e])
           | Inr db1 \<Rightarrow>
               (case set_user_status db1 now a ''offline'' of
                  Inl e \<Rightarrow> (db1, [GroupDiscard (room_group_name c) (channel_name c), Raise e])
                | Inr db2 \<Rightarrow>
                    (db2, [GroupDiscard (room_group_name c) (channel_name c),
                           GroupSend (room_group_name c)
                             (StatusBroadcast (user_display a) ''offline'' now)]))))"

section \<open>The REST views that mutate the same state (chat/views.py)\<close>






text \<open>
  The newest message of a conversation that is not deleted and that the user has not
  deleted (\<open>Meta.ordering = ['-timestamp']\<close>, then \<open>.first()\<close>); among equal timestamps the
  earlier row of the table is taken.
\<close>

fun newest :: "message list \<Rightarrow> message option" where
  "newest [] = None"
| "newest (m # ms) =
     (case newest ms of
        None \<Rightarrow> Some m
      | Some m' \<Rightarrow> if timestamp m' > timestamp m then Some m' else Some m)"

definition latest_message_for :: "store \<Rightarrow> conversation \<Rightarrow> account \<Rightarrow> message option" where
  "latest_message_for db conv a =
     newest (filter (\<lambda>m. msg_conversation m = conversation_id conv \<and> \<not> is_deleted m
                        \<and> (message_id m, acc_id a) \<notin> set (message_deletions db))
               (messages db))"







section \<open>Integrity constraints of the tables, and a small world to run the model on\<close>

text \<open>
  The uniqueness constraints the database enforces: primary keys, the one-to-one status
  row, and the \<open>unique_together\<close> pairs and triples.
\<close>

definition store_ok :: "store \<Rightarrow> bool" where
  "store_ok db =
     (distinct (map conversation_id (conversations db))
      \<and> distinct (map message_id (messages db))
      \<and> distinct (map acc_id (accounts db))
      \<and> distinct (map us_user (user_statuses db))
      \<and> distinct (message_deletions db)
      \<and> distinct (conversation_deletions db)
      \<and> distinct (message_reactions db))"

text \<open>
  The frames written to sockets when the effects of a handler running on channel
  \<open>origin\<close> are carried out: a \<open>Send\<close> goes to the handler's own socket, a
  \<open>GroupSend\<close> through the fan-out.
\<close>

fun publish ::
  "store \<Rightarrow> (string \<times> string) list \<Rightarrow> consumer list \<Rightarrow> string \<Rightarrow> effect list \<Rightarrow> (string \<times> frame_out) list" where
  "publish db groups cs origin [] = []"
| "publish db groups cs origin (Send f # es) = (origin, f) # publish db groups cs origin es"
| "publish db groups cs origin (GroupSend g ev # es) =
     group_send db groups cs g ev @ publish db groups cs origin es"
| "publish db groups cs origin (e # es) = publish db groups cs origin es"

text \<open>The inbound event kinds \<open>receive\<close> dispatches on.\<close>

definition known_events :: "string list" where
  "known_events = [''chat_message'', ''message_edit'', ''message_delete'', ''reaction'',
                   ''read_receipt'', ''user_typing'', ''ping'']"

text \<open>
  A frame without usable message text: the \<open>message\<close> entry is missing, is not a string,
  or is empty or whitespace only.
\<close>

definition blank_message :: "(string \<times> json) list \<Rightarrow> bool" where
  "blank_message d = (case get_stripped d ''message'' of Inr s \<Rightarrow> s = [] | Inl e \<Rightarrow> True)"

text \<open>
  The frames a client must not send: an undecodable frame, a value that is not an object,
  an unknown event kind, a message or an edit without text, and an edit, a delete or a
  reaction without its required field.
\<close>

fun invalid_frame :: "json option \<Rightarrow> bool" where
  "invalid_frame None = True"
| "invalid_frame (Some (JObj d)) =
     (let t = dict_get d ''type'' JNull in
        t \<notin> set (map JStr known_events)
        \<or> (t = JStr ''chat_message'' \<and> blank_message d)
        \<or> (t = JStr ''message_edit''
            \<and> (blank_message d \<or> \<not> truthy (dict_get d ''message_id'' JNull)))
        \<or> (t = JStr ''message_delete'' \<and> \<not> truthy (dict_get d ''message_id'' JNull))
        \<or> (t = JStr ''reaction''
            \<and> (\<not> truthy (dict_get d ''message_id'' JNull)
                 \<or> \<not> truthy (dict_get d ''reaction'' JNull))))"
| "invalid_frame (Some v) = True"

text \<open>The frames one channel received out of a fan-out.\<close>

definition delivered_to :: "(string \<times> frame_out) list \<Rightarrow> string \<Rightarrow> frame_out list" where
  "delivered_to out ch = map snd (filter (\<lambda>p. fst p = ch) out)"

definition alice :: account where
  "alice = \<lparr> acc_id = ''alice'', email = ''alice@example.org'', full_name = ''Alice'',
             company_name = None \<rparr>"

definition bob :: account where
  "bob = \<lparr> acc_id = ''bob'', email = ''bob@example.org'', full_name = [],
           company_name = None \<rparr>"

definition msg1 :: message where
  "msg1 = \<lparr> message_id = ''m1'', msg_conversation = ''c1'', sender = ''alice'',
            content = Some ''k1hello'', timestamp = 1, message_type = ''text'',
            attachment = None, is_edited = False, edited_at = None, is_deleted = False, reply_to = None \<rparr>"

text \<open>One conversation of Alice and Bob with one message of Alice.\<close>

definition store2 :: store where
  "store2 = empty_store\<lparr>accounts := [alice, bob], conversations := [conv1], messages := [msg1]\<rparr>"

text \<open>The same, after Bob deleted the message for himself.\<close>

definition store3 :: store where
  "store3 = store2\<lparr>message_deletions := [(''m1'', ''bob'')]\<rparr>"

definition consumer_of :: "string \<Rightarrow> account \<Rightarrow> consumer" where
  "consumer_of ch a =
     \<lparr> channel_name = ch, self_conversation_id = ''c1'', room_group_name = ''chat_c1'',
       self_user = Some (User a) \<rparr>"

text \<open>Alice is connected twice, Bob once; all three channels are in the room.\<close>

definition room_consumers :: "consumer list" where
  "room_consumers = [consumer_of ''a1'' alice, consumer_of ''a2'' alice, consumer_of ''b1'' bob]"

definition room_groups :: "(string \<times> string) list" where
  "room_groups = [(''chat_c1'', ''a1''), (''chat_c1'', ''a2''), (''chat_c1'', ''b1'')]"

text \<open>
  An environment for the examples: the texts \<open>m1\<close>, \<open>m2\<close> and \<open>c1\<close> stand for UUIDs, no
  other text and no number does; \<open>str\<close> is given on the number 5 only (any other value
  prints as \<open>?\<close>); the database enforces the column lengths.
\<close>

definition demo_uuid_hex :: "string \<Rightarrow> uuid option" where
  "demo_uuid_hex s = (if s \<in> set [''m1'', ''m2'', ''c1''] then Some s else None)"

definition demo_str :: "json \<Rightarrow> string" where
  "demo_str v = (if v = JNum 5 then ''5'' else ''?'')"

definition env1 :: env where
  "env1 = \<lparr> env_now = 5, env_uuid = ''m2'', env_key = ''k9'', env_nonce = ''n'',
            env_fernet = toy_fernet, env_uuid_hex = demo_uuid_hex,
            env_uuid_int = (\<lambda>n. None), env_str = demo_str, env_strict = True \<rparr>"

text \<open>
  A third account outside the conversation, the store after Bob has deleted the
  conversation for himself, and a token verifier that knows three tokens.
\<close>

definition eve :: account where
  "eve = \<lparr> acc_id = ''eve'', email = ''eve@example.org'', full_name = ''Eve'',
           company_name = None \<rparr>"

definition store4 :: store where
  "store4 = store2\<lparr>accounts := [alice, bob, eve], conversation_deletions := [(''c1'', ''bob'')]\<rparr>"

definition jwt1 :: "string \<Rightarrow> string option option" where
  "jwt1 t =
     (if t = ''tok_alice'' then Some (Some ''alice'')
      else if t = ''tok_bob'' then Some (Some ''bob'')
      else if t = ''tok_eve'' then Some (Some ''eve'')
      else None)"

definition scope_of :: "string \<Rightarrow> scope" where
  "scope_of t = \<lparr> url_conversation_id = ''c1'', query_token = Some t, scope_user = None \<rparr>"




section \<open>Properties\<close>

subsection \<open>Helper facts about the tables\<close>

lemma objects_get_Inr: "objects_get xs = Inr r \<Longrightarrow> xs = [r]"
  by (cases xs rule: objects_get.cases) auto

lemma find_conversation_id: "find_conversation db cid = Inr c \<Longrightarrow> conversation_id c = cid"
proof -
  assume "find_conversation db cid = Inr c"
  then have "filter (\<lambda>c. conversation_id c = cid) (conversations db) = [c]"
    unfolding find_conversation_def by (rule objects_get_Inr)
  then have "c \<in> set (filter (\<lambda>c. conversation_id c = cid) (conversations db))" by simp
  then show ?thesis by simp
qed

lemma user_status_get_or_create_row:
  assumes "user_status_get_or_create db now u = Inr (db1, s)"
  shows "us_user s = u \<and> s \<in> set (user_statuses db1)"
proof (cases "filter (\<lambda>s. us_user s = u) (user_statuses db)")
  case Nil
  with assms show ?thesis
    by (auto simp: user_status_get_or_create_def new_user_status_def)
next
  case (Cons a as)
  with assms have as: "as = []" and sa: "s = a" and db1: "db1 = db"
    by (auto simp: user_status_get_or_create_def split: list.splits)
  from Cons have "a \<in> set (filter (\<lambda>s. us_user s = u) (user_statuses db))" by simp
  then show ?thesis using sa db1 by simp
qed

lemma user_status_save_rows:
  assumes "s \<in> set (user_statuses db1)" and "us_user s = u" and "us_user s' = u"
  shows "s' \<in> set (user_statuses (user_status_save db1 s'))"
    and "\<forall>r \<in> set (user_statuses (user_status_save db1 s')). us_user r = u \<longrightarrow> r = s'"
  using assms by (auto simp: user_status_save_def image_iff)

lemma typing_rows_after_set:
  assumes "set_typing_status db T cid u True = Inr db'"
  shows "\<exists>s'. s' \<in> set (user_statuses db') \<and> us_user s' = u \<and>
           is_typing_in s' = Some cid \<and> typing_started_at s' = Some T \<and>
           (\<forall>r \<in> set (user_statuses db'). us_user r = u \<longrightarrow> r = s')"
proof -
  from assms obtain c where c: "find_conversation db cid = Inr c"
    by (auto simp: set_typing_status_def split: sum.splits)
  then have cid: "conversation_id c = cid" by (rule find_conversation_id)
  from assms c obtain db1 s where gc: "user_status_get_or_create db T u = Inr (db1, s)"
    and db': "db' = user_status_save db1 (s\<lparr>is_typing_in := Some cid, typing_started_at := Some T\<rparr>)"
    using cid by (auto simp: set_typing_status_def split: sum.splits)
  from user_status_get_or_create_row[OF gc]
  have su: "us_user s = u" and mem: "s \<in> set (user_statuses db1)" by simp_all
  let ?s = "s\<lparr>is_typing_in := Some cid, typing_started_at := Some T\<rparr>"
  have su': "us_user ?s = u" using su by simp
  from user_status_save_rows[OF mem su su'] show ?thesis
    unfolding db' using su' by (intro exI[of _ ?s]) simp
qed

subsection \<open>C7: typing state expires at read time\<close>

text \<open>
  C7 (as amended). After user \<open>u\<close> set typing on conversation \<open>cid\<close> at time \<open>T\<close>, a
  summary query made at time \<open>now\<close> for another user reports \<open>u\<close> as typing exactly while
  \<open>now - T\<close> is at most the 10-second window (the bound is inclusive), with no clear call
  in between; in particular a query 11 seconds later reports not-typing.
\<close>

theorem typing_expires_at_read_time:
  assumes "set_typing_status db T cid u True = Inr db'" and "v \<noteq> u"
  shows "u \<in> set (get_typing_users db' now cid (Some v)) \<longleftrightarrow> now - T \<le> typing_window"
proof -
  from typing_rows_after_set[OF assms(1)] obtain s' where
    mem: "s' \<in> set (user_statuses db')" and su: "us_user s' = u"
    and ty: "is_typing_in s' = Some cid" and st: "typing_started_at s' = Some T"
    and uniq: "\<forall>r \<in> set (user_statuses db'). us_user r = u \<longrightarrow> r = s'" by blast
  show ?thesis
  proof
    assume "u \<in> set (get_typing_users db' now cid (Some v))"
    then obtain r where r: "r \<in> set (user_statuses db')" "us_user r = u"
      and w: "case typing_started_at r of None \<Rightarrow> False | Some t \<Rightarrow> t \<ge> now - typing_window"
      by (auto simp: get_typing_users_def)
    from uniq r have "r = s'" by blast
    with w st show "now - T \<le> typing_window" by simp
  next
    assume "now - T \<le> typing_window"
    then show "u \<in> set (get_typing_users db' now cid (Some v))"
      using mem su ty st assms(2) by (force simp: get_typing_users_def image_iff)
  qed
qed

theorem typing_expires_at_read_time_witness:
  "set_typing_status store1 0 ''c1'' ''alice'' True =
     Inr (store1\<lparr>user_statuses := [\<lparr> us_user = ''alice'', us_status = ''offline'', last_seen = 0,
            is_typing_in = Some ''c1'', typing_started_at = Some 0 \<rparr>]\<rparr>)
   \<and> ''bob'' \<noteq> ''alice''
   \<and> ''alice'' \<notin> set (get_typing_users (store1\<lparr>user_statuses := [\<lparr> us_user = ''alice'', us_status = ''offline'', last_seen = 0,
            is_typing_in = Some ''c1'', typing_started_at = Some 0 \<rparr>]\<rparr>) 11000000 ''c1'' (Some ''bob''))"
proof -
  have h: "set_typing_status store1 0 ''c1'' ''alice'' True =
     Inr (store1\<lparr>user_statuses := [\<lparr> us_user = ''alice'', us_status = ''offline'', last_seen = 0,
            is_typing_in = Some ''c1'', typing_started_at = Some 0 \<rparr>]\<rparr>)"
    by (simp add: set_typing_status_def find_conversation_def store1_def empty_store_def conv1_def
          user_status_get_or_create_def new_user_status_def user_status_save_def)
  have n: "''bob'' \<noteq> ''alice''" by simp
  from typing_expires_at_read_time[OF h n, of 11000000] show ?thesis
    using h n by (simp add: typing_window_def)
qed

text \<open>
  C7 as stated fails at the boundary: exactly 10 seconds after typing was set, the window
  has fully elapsed and the query still reports the user as typing.
\<close>

theorem typing_still_active_at_ten_seconds:
  "get_typing_users (store1\<lparr>user_statuses := [\<lparr> us_user = ''alice'', us_status = ''offline'', last_seen = 0,
            is_typing_in = Some ''c1'', typing_started_at = Some 0 \<rparr>]\<rparr>) 10000000 ''c1'' (Some ''bob'') = [''alice'']
   \<and> set_typing_status store1 0 ''c1'' ''alice'' True =
     Inr (store1\<lparr>user_statuses := [\<lparr> us_user = ''alice'', us_status = ''offline'', last_seen = 0,
            is_typing_in = Some ''c1'', typing_started_at = Some 0 \<rparr>]\<rparr>)"
  by (simp add: set_typing_status_def find_conversation_def store1_def empty_store_def conv1_def
          user_status_get_or_create_def new_user_status_def user_status_save_def
          get_typing_users_def typing_window_def)

subsection \<open>C9: encryption round trip\<close>

text \<open>
  C9. Given a Fernet library that decrypts what it encrypted (under a key it accepts) and
  whose tokens are never empty, for every conversation with a non-empty key and every
  non-empty message \<open>m\<close>, decrypting the encrypted message gives \<open>m\<close> back, also when the
  library rejects the key (both directions then pass the text through). Empty and null
  content pass through \<open>encrypt_message\<close> and \<open>decrypt_message\<close> unchanged, and a
  decryption failure returns the stored input.
\<close>

theorem encrypt_decrypt_roundtrip:
  assumes lib: "\<forall>k n m. valid_key F k \<longrightarrow> fencrypt F k n m \<noteq> [] \<and> fdecrypt F k (fencrypt F k n m) = Some m"
    and key: "encryption_key c = Some k" "k \<noteq> []"
  shows "(m \<noteq> [] \<longrightarrow>
            fst (encrypt_message F gen nonce c (Some m)) = c \<and>
            decrypt_message F c (snd (encrypt_message F gen nonce c (Some m))) = Some m)
       \<and> (falsy x \<longrightarrow> encrypt_message F gen nonce c x = (c, x) \<and> decrypt_message F c x = x)
       \<and> (\<not> valid_key F k \<or> fdecrypt F k e = None \<longrightarrow> decrypt_message F c (Some e) = Some e)"
  using assms by (auto simp: encrypt_message_def decrypt_message_def Let_def)

theorem encrypt_decrypt_roundtrip_witness:
  "valid_key toy_fernet ''k1''
   \<and> encryption_key conv1 = Some ''k1'' \<and> ''k1'' \<noteq> []
   \<and> snd (encrypt_message toy_fernet ''g'' ''n'' conv1 (Some ''hi'')) = Some ''k1hi''
   \<and> decrypt_message toy_fernet conv1 (Some ''k1hi'') = Some ''hi''
   \<and> decrypt_message toy_fernet conv1 (Some ''zzhi'') = Some ''zzhi''"
proof -
  have lib: "\<forall>k n m. valid_key toy_fernet k \<longrightarrow> fencrypt toy_fernet k n m \<noteq> [] \<and> fdecrypt toy_fernet k (fencrypt toy_fernet k n m) = Some m"
    by (auto simp: toy_fernet_def)
  have key: "encryption_key conv1 = Some ''k1''" "''k1'' \<noteq> []" by (simp_all add: conv1_def)
  have enc: "snd (encrypt_message toy_fernet ''g'' ''n'' conv1 (Some ''hi'')) = Some ''k1hi''"
    by (simp add: encrypt_message_def toy_fernet_def conv1_def)
  have bad: "fdecrypt toy_fernet ''k1'' ''zzhi'' = None" by (simp add: toy_fernet_def)
  from encrypt_decrypt_roundtrip[OF lib key, of "''hi''" "''g''" "''n''" None "''zzhi''"]
  show ?thesis using key enc bad by (simp add: toy_fernet_def)
qed

subsection \<open>Helper facts about lookups, saves and the fan-out\<close>

lemma objects_get_unique:
  assumes "distinct (map f xs)" and "y \<in> set xs" and "f y = k" and "P y"
  shows "objects_get (filter (\<lambda>x. f x = k \<and> P x) xs) = Inr y"
  using assms
proof (induction xs)
  case Nil
  then show ?case by simp
next
  case (Cons x xs)
  show ?case
  proof (cases "x = y")
    case True
    with Cons.prems have "f y \<notin> f ` set xs" by simp
    then have "filter (\<lambda>x. f x = k \<and> P x) xs = []"
      using Cons.prems(3) by (force simp: filter_empty_conv image_iff)
    then show ?thesis using True Cons.prems by simp
  next
    case False
    with Cons.prems have mem: "y \<in> set xs" and d: "distinct (map f xs)" and "f x \<noteq> f y"
      by auto
    then show ?thesis using Cons.IH[OF d mem] Cons.prems(3,4) by simp
  qed
qed

lemma objects_get_unique_key:
  assumes "distinct (map f xs)" and "y \<in> set xs" and "f y = k"
  shows "objects_get (filter (\<lambda>x. f x = k) xs) = Inr y"
  using objects_get_unique[OF assms, of "\<lambda>_. True"] by simp

lemma objects_get_none:
  assumes "\<forall>x \<in> set xs. \<not> Q x"
  shows "objects_get (filter Q xs) = Inl DoesNotExist"
proof -
  from assms have "filter Q xs = []" by (simp add: filter_empty_conv)
  then show ?thesis by simp
qed


lemma user_status_get_or_create_total:
  assumes "distinct (map us_user (user_statuses db))"
  shows "\<exists>db1 s. user_status_get_or_create db now u = Inr (db1, s)"
proof (cases "\<exists>y \<in> set (user_statuses db). us_user y = u")
  case True
  then obtain y where "y \<in> set (user_statuses db)" "us_user y = u" by blast
  from objects_get_unique_key[OF assms this]
  have "filter (\<lambda>s. us_user s = u) (user_statuses db) = [y]" by (rule objects_get_Inr)
  then show ?thesis by (simp add: user_status_get_or_create_def)
next
  case False
  then have "filter (\<lambda>s. us_user s = u) (user_statuses db) = []"
    by (auto simp: filter_empty_conv)
  then show ?thesis by (simp add: user_status_get_or_create_def)
qed

lemma set_user_status_total:
  assumes "distinct (map us_user (user_statuses db))"
  shows "\<exists>db'. set_user_status db now a st = Inr db'"
  using user_status_get_or_create_total[OF assms, of now "acc_id a"]
  by (auto simp: set_user_status_def)


lemma filter_eq_absent: "x \<notin> set xs \<Longrightarrow> filter (\<lambda>r. r = x) xs = []"
  by (induction xs) auto

lemma filter_eq_snoc_absent: "x \<notin> set xs \<Longrightarrow> filter (\<lambda>r. r = x) (xs @ [x]) = [x]"
  by (simp add: filter_eq_absent)













lemma delivered_to_not_member:
  "ch \<notin> set (map channel_name cs) \<Longrightarrow> delivered_to (group_send db groups cs g ev) ch = []"
  by (induction cs) (auto simp: delivered_to_def group_send_def split: option.splits)

lemma delivered_to_group_send:
  assumes "distinct (map channel_name cs)" and "c \<in> set cs"
  shows "delivered_to (group_send db groups cs g ev) (channel_name c) =
           (if (g, channel_name c) \<in> set groups
            then (case broadcaster db c ev of None \<Rightarrow> [] | Some f \<Rightarrow> [f]) else [])"
  using assms
proof (induction cs)
  case Nil
  then show ?case by simp
next
  case (Cons x xs)
  show ?case
  proof (cases "x = c")
    case True
    with Cons.prems have "channel_name c \<notin> set (map channel_name xs)" by simp
    then have "delivered_to (group_send db groups xs g ev) (channel_name c) = []"
      by (rule delivered_to_not_member)
    then show ?thesis using True
      by (auto simp: delivered_to_def group_send_def split: option.splits)
  next
    case False
    with Cons.prems have mem: "c \<in> set xs" and d: "distinct (map channel_name xs)"
      and ne: "channel_name x \<noteq> channel_name c" by auto
    from Cons.IH[OF d mem] ne show ?thesis
      by (auto simp: delivered_to_def group_send_def split: option.splits)
  qed
qed

lemma env_later [simp]:
  "to_uuid (E\<lparr>env_now := t\<rparr>) v = to_uuid E v"
  "char_prep (E\<lparr>env_now := t\<rparr>) v = char_prep E v"
  "fits (E\<lparr>env_now := t\<rparr>) n s = fits E n s"
  by (cases v; simp add: fits_def)+










subsection \<open>C1: soft-deleted messages and broadcasts\<close>

text \<open>
  C1 (as amended). Among connections with distinct channels, a connection of the group
  whose user has a \<open>MessageDeletion\<close> row for message \<open>mid\<close> receives nothing from a
  message-deleted event for \<open>mid\<close>, and a connection whose user has no such row receives
  the event; a reaction event for \<open>mid\<close> reaches every connection of the group, with or
  without such a row.
\<close>

theorem message_deleted_event_skips_deleters:
  assumes "distinct (map channel_name cs)" and "c \<in> set cs"
    and "(g, channel_name c) \<in> set groups" and "self_user c = Some (User a)"
  shows "delivered_to (group_send db groups cs g (MessageDeletedBroadcast mid ud ts)) (channel_name c) =
           (if (mid, acc_id a) \<in> set (message_deletions db) then []
            else [OutMessageDeleted mid ud ts])
       \<and> delivered_to (group_send db groups cs g (ReactionBroadcast mid r ud act rd ts)) (channel_name c) =
           [OutReaction mid r ud act rd ts]"
  using assms
  by (simp add: delivered_to_group_send user_has_deleted_message_def)

lemmas world_defs = room_consumers_def room_groups_def consumer_of_def store3_def store2_def
  empty_store_def alice_def bob_def msg1_def conv1_def env1_def toy_fernet_def

theorem message_deleted_event_skips_deleters_witness:
  "distinct (map channel_name room_consumers) \<and> consumer_of ''b1'' bob \<in> set room_consumers
   \<and> (''chat_c1'', channel_name (consumer_of ''b1'' bob)) \<in> set room_groups
   \<and> self_user (consumer_of ''b1'' bob) = Some (User bob)
   \<and> (''m1'', acc_id bob) \<in> set (message_deletions store3)
   \<and> delivered_to (group_send store3 room_groups room_consumers ''chat_c1''
        (MessageDeletedBroadcast ''m1'' (user_display bob) 5)) ''b1'' = []
   \<and> delivered_to (group_send store3 room_groups room_consumers ''chat_c1''
        (MessageDeletedBroadcast ''m1'' (user_display bob) 5)) ''a1'' =
        [OutMessageDeleted ''m1'' (user_display bob) 5]"
proof -
  have d: "distinct (map channel_name room_consumers)" by (simp add: world_defs)
  have b: "consumer_of ''b1'' bob \<in> set room_consumers" by (simp add: room_consumers_def)
  have a1: "consumer_of ''a1'' alice \<in> set room_consumers" by (simp add: room_consumers_def)
  have gb: "(''chat_c1'', channel_name (consumer_of ''b1'' bob)) \<in> set room_groups"
    by (simp add: room_groups_def consumer_of_def)
  have ga: "(''chat_c1'', channel_name (consumer_of ''a1'' alice)) \<in> set room_groups"
    by (simp add: room_groups_def consumer_of_def)
  have ub: "self_user (consumer_of ''b1'' bob) = Some (User bob)" by (simp add: consumer_of_def)
  have ua: "self_user (consumer_of ''a1'' alice) = Some (User alice)" by (simp add: consumer_of_def)
  have del: "(''m1'', acc_id bob) \<in> set (message_deletions store3)"
    "(''m1'', acc_id alice) \<notin> set (message_deletions store3)" by (simp_all add: world_defs)
  from message_deleted_event_skips_deleters[OF d b gb ub, of store3 "''m1''" "user_display bob" 5]
       message_deleted_event_skips_deleters[OF d a1 ga ua, of store3 "''m1''" "user_display bob" 5]
  show ?thesis using d b gb ub del by (simp add: consumer_of_def)
qed

text \<open>
  C1 as stated fails: Bob has deleted message \<open>m1\<close> for himself, and his connection
  still receives the reaction event for \<open>m1\<close> and the edit event with the new content.
\<close>

theorem deleter_still_receives_reaction_and_edit:
  "(''m1'', ''bob'') \<in> set (message_deletions store3)
   \<and> (case handle_reaction env1 store3 (consumer_of ''a1'' alice)
              [(''type'', JStr ''reaction''), (''message_id'', JStr ''m1''), (''reaction'', JStr ''like'')] of
         Inr r \<Rightarrow> delivered_to (publish (fst r) room_groups room_consumers ''a1'' (snd r)) ''b1''
       | Inl e \<Rightarrow> [])
      = [OutReaction ''m1'' (JStr ''like'') (user_display alice) ''added''
           (Some \<lparr> sr_reaction = JStr ''like'', sr_user = user_display alice, sr_created_at = 5 \<rparr>) 5]
   \<and> (case handle_message_edit env1 store3 (consumer_of ''a1'' alice)
              [(''type'', JStr ''message_edit''), (''message_id'', JStr ''m1''), (''message'', JStr ''edited'')] of
         Inr r \<Rightarrow> delivered_to (publish (fst r) room_groups room_consumers ''a1'' (snd r)) ''b1''
       | Inl e \<Rightarrow> [])
      = [OutMessageEdited
           \<lparr> sm_message_id = ''m1'', sm_content = Some ''edited'', sm_timestamp = 1,
             sm_message_type = JStr ''text'', sm_sender = ''alice'', sm_is_edited = True,
             sm_edited_at = Some 5, sm_is_deleted_by_me = False \<rparr>]"
  by code_simp

subsection \<open>C2: read receipts and typing events are not echoed\<close>

lemma read_receipt_event:
  assumes "self_user c0 = Some (User u)" and "handle_read_receipt E db c0 d = Inr (db', effs)"
    and "GroupSend g ev \<in> set effs"
  shows "g = room_group_name c0
         \<and> (\<exists>k. to_uuid E (dict_get d ''message_id'' JNull) = Inr k
                \<and> ev = ReadReceiptBroadcast k (user_display u) (env_now E))"
  using assms
  by (auto simp: handle_read_receipt_def send_error_def split: if_splits sum.splits)

lemma user_typing_event:
  assumes "self_user c0 = Some (User u)" and "handle_user_typing E db c0 d = Inr (db', effs)"
    and "GroupSend g ev \<in> set effs"
  shows "g = room_group_name c0
         \<and> ev = UserTypingBroadcast (user_display u) (dict_get d ''is_typing'' (JBool False)) (env_now E)"
  using assms
  by (auto simp: handle_user_typing_def send_error_def split: if_splits sum.splits)

text \<open>
  C2 (as amended). A read-receipt or typing event that the handler of a connection of user
  \<open>u\<close> publishes goes to that connection's room group and carries \<open>u\<close>'s data, the
  handler's time and the message id (the typing flag) of the frame. Among connections with
  distinct channels, no connection of the group whose user is \<open>u\<close> receives anything
  from it (the originating connection and any other connection of \<open>u\<close> alike), and every
  connection of another user receives exactly the corresponding read-receipt (typing)
  frame.
\<close>

theorem receipts_and_typing_skip_all_connections_of_sender:
  assumes origin: "self_user c0 = Some (User u)"
    and pub: "GroupSend g ev \<in> set effs"
    and chans: "distinct (map channel_name cs)" and mem: "c \<in> set cs"
    and grp: "(g, channel_name c) \<in> set groups" and usr: "self_user c = Some (User a)"
  shows "(handle_read_receipt E db c0 d = Inr (db', effs) \<longrightarrow>
            g = room_group_name c0
            \<and> (\<exists>k. to_uuid E (dict_get d ''message_id'' JNull) = Inr k
                   \<and> ev = ReadReceiptBroadcast k (user_display u) (env_now E)
                   \<and> delivered_to (group_send db' groups cs g ev) (channel_name c) =
                        (if acc_id a = acc_id u then []
                         else [OutReadReceipt k (user_display u) (env_now E)])))
       \<and> (handle_user_typing E db c0 d = Inr (db', effs) \<longrightarrow>
            g = room_group_name c0
            \<and> ev = UserTypingBroadcast (user_display u) (dict_get d ''is_typing'' (JBool False))
                     (env_now E)
            \<and> delivered_to (group_send db' groups cs g ev) (channel_name c) =
                 (if acc_id a = acc_id u then []
                  else [OutUserTyping (user_display u) (dict_get d ''is_typing'' (JBool False))
                          (env_now E)]))"
proof (rule conjI; rule impI)
  assume run: "handle_read_receipt E db c0 d = Inr (db', effs)"
  from read_receipt_event[OF origin run pub] obtain k where
    g: "g = room_group_name c0" and k: "to_uuid E (dict_get d ''message_id'' JNull) = Inr k"
    and ev: "ev = ReadReceiptBroadcast k (user_display u) (env_now E)" by blast
  have "delivered_to (group_send db' groups cs g ev) (channel_name c) =
          (if acc_id a = acc_id u then [] else [OutReadReceipt k (user_display u) (env_now E)])"
    using grp usr ev
    by (simp add: delivered_to_group_send[OF chans mem] not_from_me_def user_display_def)
  with g k ev show "g = room_group_name c0
            \<and> (\<exists>k. to_uuid E (dict_get d ''message_id'' JNull) = Inr k
                   \<and> ev = ReadReceiptBroadcast k (user_display u) (env_now E)
                   \<and> delivered_to (group_send db' groups cs g ev) (channel_name c) =
                        (if acc_id a = acc_id u then []
                         else [OutReadReceipt k (user_display u) (env_now E)]))" by blast
next
  assume run: "handle_user_typing E db c0 d = Inr (db', effs)"
  from user_typing_event[OF origin run pub] have
    g: "g = room_group_name c0"
    and ev: "ev = UserTypingBroadcast (user_display u) (dict_get d ''is_typing'' (JBool False)) (env_now E)"
    by blast+
  have "delivered_to (group_send db' groups cs g ev) (channel_name c) =
          (if acc_id a = acc_id u then []
           else [OutUserTyping (user_display u) (dict_get d ''is_typing'' (JBool False)) (env_now E)])"
    using grp usr ev
    by (simp add: delivered_to_group_send[OF chans mem] not_from_me_def user_display_def)
  with g ev show "g = room_group_name c0
            \<and> ev = UserTypingBroadcast (user_display u) (dict_get d ''is_typing'' (JBool False))
                     (env_now E)
            \<and> delivered_to (group_send db' groups cs g ev) (channel_name c) =
                 (if acc_id a = acc_id u then []
                  else [OutUserTyping (user_display u) (dict_get d ''is_typing'' (JBool False))
                          (env_now E)])" by blast
qed

theorem receipts_and_typing_skip_all_connections_of_sender_witness:
  "handle_read_receipt env1 store2 (consumer_of ''a1'' alice)
        [(''type'', JStr ''read_receipt''), (''message_id'', JStr ''m1'')]
      = Inr (store2\<lparr>read_statuses := [(''m1'', ''alice'', 5)]\<rparr>,
             [GroupSend ''chat_c1'' (ReadReceiptBroadcast ''m1'' (user_display alice) 5)])
   \<and> distinct (map channel_name room_consumers)
   \<and> consumer_of ''a2'' alice \<in> set room_consumers
   \<and> consumer_of ''b1'' bob \<in> set room_consumers
   \<and> delivered_to (group_send (store2\<lparr>read_statuses := [(''m1'', ''alice'', 5)]\<rparr>) room_groups
        room_consumers ''chat_c1'' (ReadReceiptBroadcast ''m1'' (user_display alice) 5))
        (channel_name (consumer_of ''a2'' alice)) = []
   \<and> delivered_to (group_send (store2\<lparr>read_statuses := [(''m1'', ''alice'', 5)]\<rparr>) room_groups
        room_consumers ''chat_c1'' (ReadReceiptBroadcast ''m1'' (user_display alice) 5))
        (channel_name (consumer_of ''b1'' bob)) = [OutReadReceipt ''m1'' (user_display alice) 5]"
proof -
  let ?db = "store2\<lparr>read_statuses := [(''m1'', ''alice'', 5)]\<rparr>"
  let ?ev = "ReadReceiptBroadcast ''m1'' (user_display alice) 5"
  let ?d = "[(''type'', JStr ''read_receipt''), (''message_id'', JStr ''m1'')]"
  have u: "self_user (consumer_of ''a1'' alice) = Some (User alice)" by (simp add: consumer_of_def)
  have h: "handle_read_receipt env1 store2 (consumer_of ''a1'' alice) ?d
             = Inr (?db, [GroupSend ''chat_c1'' ?ev])"
    by code_simp
  have e: "GroupSend ''chat_c1'' ?ev \<in> set [GroupSend ''chat_c1'' ?ev]" by simp
  have dd: "distinct (map channel_name room_consumers)" by code_simp
  have m2: "consumer_of ''a2'' alice \<in> set room_consumers" by (simp add: room_consumers_def)
  have mb: "consumer_of ''b1'' bob \<in> set room_consumers" by (simp add: room_consumers_def)
  have g2: "(''chat_c1'', channel_name (consumer_of ''a2'' alice)) \<in> set room_groups"
    by (simp add: room_groups_def consumer_of_def)
  have gb: "(''chat_c1'', channel_name (consumer_of ''b1'' bob)) \<in> set room_groups"
    by (simp add: room_groups_def consumer_of_def)
  have u2: "self_user (consumer_of ''a2'' alice) = Some (User alice)" by (simp add: consumer_of_def)
  have ub: "self_user (consumer_of ''b1'' bob) = Some (User bob)" by (simp add: consumer_of_def)
  have ne: "acc_id bob \<noteq> acc_id alice" by (simp add: bob_def alice_def)
  have now: "env_now env1 = 5" by (simp add: env1_def)
  note t2 = conjunct1[OF receipts_and_typing_skip_all_connections_of_sender
                [OF u e dd m2 g2 u2, of env1 store2 ?d ?db], THEN mp, OF h]
  note tb = conjunct1[OF receipts_and_typing_skip_all_connections_of_sender
                [OF u e dd mb gb ub, of env1 store2 ?d ?db], THEN mp, OF h]
  from t2 have r2: "delivered_to (group_send ?db room_groups room_consumers ''chat_c1'' ?ev)
          (channel_name (consumer_of ''a2'' alice)) = []" by auto
  from tb ne now have rb: "delivered_to (group_send ?db room_groups room_consumers ''chat_c1'' ?ev)
          (channel_name (consumer_of ''b1'' bob)) = [OutReadReceipt ''m1'' (user_display alice) 5]"
    by auto
  show ?thesis by (intro conjI h dd m2 mb r2 rb)
qed

text \<open>
  C2 as stated fails: Alice is connected twice; the read receipt and the typing event sent
  from her first connection reach Bob but not her second connection.
\<close>

theorem second_connection_of_sender_gets_no_receipt:
  "(case handle_read_receipt env1 store2 (consumer_of ''a1'' alice)
              [(''type'', JStr ''read_receipt''), (''message_id'', JStr ''m1'')] of
         Inr r \<Rightarrow> delivered_to (publish (fst r) room_groups room_consumers ''a1'' (snd r)) ''a2''
       | Inl e \<Rightarrow> [OutPong 0]) = []
   \<and> (case handle_read_receipt env1 store2 (consumer_of ''a1'' alice)
              [(''type'', JStr ''read_receipt''), (''message_id'', JStr ''m1'')] of
         Inr r \<Rightarrow> delivered_to (publish (fst r) room_groups room_consumers ''a1'' (snd r)) ''b1''
       | Inl e \<Rightarrow> []) = [OutReadReceipt ''m1'' (user_display alice) 5]
   \<and> (case handle_user_typing env1 store2 (consumer_of ''a1'' alice)
              [(''type'', JStr ''user_typing''), (''is_typing'', JBool True)] of
         Inr r \<Rightarrow> delivered_to (publish (fst r) room_groups room_consumers ''a1'' (snd r)) ''a2''
       | Inl e \<Rightarrow> [OutPong 0]) = []
   \<and> (case handle_user_typing env1 store2 (consumer_of ''a1'' alice)
              [(''type'', JStr ''user_typing''), (''is_typing'', JBool True)] of
         Inr r \<Rightarrow> delivered_to (publish (fst r) room_groups room_consumers ''a1'' (snd r)) ''b1''
       | Inl e \<Rightarrow> []) = [OutUserTyping (user_display alice) (JBool True) 5]"
  by code_simp

subsection \<open>C3: invalid frames\<close>

lemma not_known_event:
  "t \<notin> set (map JStr known_events) \<Longrightarrow>
     t \<noteq> JStr ''chat_message'' \<and> t \<noteq> JStr ''message_edit'' \<and> t \<noteq> JStr ''message_delete''
     \<and> t \<noteq> JStr ''reaction'' \<and> t \<noteq> JStr ''read_receipt'' \<and> t \<noteq> JStr ''user_typing''
     \<and> t \<noteq> JStr ''ping''"
  unfolding known_events_def by auto

lemma receive_unknown:
  assumes "dict_get d ''type'' JNull \<notin> set (map JStr known_events)"
  shows "receive E db c (Some (JObj d)) = (db, [Send (OutError ''Unknown event type'' (env_now E))])"
  using not_known_event[OF assms] by (simp add: receive_def Let_def send_error_def)

lemma receive_blank_chat_message:
  assumes "dict_get d ''type'' JNull = JStr ''chat_message''" and "blank_message d"
  shows "\<exists>msg. receive E db c (Some (JObj d)) = (db, [Send (OutError msg (env_now E))])"
  using assms
  by (auto simp: receive_def Let_def send_error_def handle_chat_message_def blank_message_def
      split: option.splits sum.splits)

lemma receive_bad_edit:
  assumes "dict_get d ''type'' JNull = JStr ''message_edit''"
    and "blank_message d \<or> \<not> truthy (dict_get d ''message_id'' JNull)"
  shows "\<exists>msg. receive E db c (Some (JObj d)) = (db, [Send (OutError msg (env_now E))])"
  using assms
  by (auto simp: receive_def Let_def send_error_def handle_message_edit_def blank_message_def
      split: option.splits sum.splits)

lemma receive_bad_delete:
  assumes "dict_get d ''type'' JNull = JStr ''message_delete''"
    and "\<not> truthy (dict_get d ''message_id'' JNull)"
  shows "\<exists>msg. receive E db c (Some (JObj d)) = (db, [Send (OutError msg (env_now E))])"
  using assms
  by (auto simp: receive_def Let_def send_error_def handle_message_delete_def
      split: option.splits sum.splits)

lemma receive_bad_reaction:
  assumes "dict_get d ''type'' JNull = JStr ''reaction''"
    and "\<not> truthy (dict_get d ''message_id'' JNull) \<or> \<not> truthy (dict_get d ''reaction'' JNull)"
  shows "\<exists>msg. receive E db c (Some (JObj d)) = (db, [Send (OutError msg (env_now E))])"
  using assms
  by (auto simp: receive_def Let_def send_error_def handle_reaction_def
      split: option.splits sum.splits)

lemma receive_not_object:
  assumes "\<forall>d. v \<noteq> JObj d"
  shows "\<exists>msg. receive E db c (Some v) = (db, [Send (OutError msg (env_now E))])"
  using assms by (cases v) (auto simp: receive_def send_error_def)

text \<open>
  C3 (as amended). For an undecodable frame, a value that is not an object, an unknown
  event kind, a message or edit without text, or an edit, delete or reaction without its
  required field, \<open>receive\<close> leaves the store unchanged and its only effect is one
  error event on the sender's own socket: no close, no broadcast. A read receipt without
  message id is dropped without any effect at all.
\<close>

theorem invalid_frame_yields_error_event_only:
  "(invalid_frame fr \<longrightarrow>
      (\<exists>msg. receive E db c fr = (db, [Send (OutError msg (env_now E))])))
   \<and> (dict_get d ''type'' JNull = JStr ''read_receipt'' \<and> \<not> truthy (dict_get d ''message_id'' JNull)
        \<longrightarrow> receive E db c (Some (JObj d)) = (db, []))"
proof (intro conjI impI)
  assume inv: "invalid_frame fr"
  show "\<exists>msg. receive E db c fr = (db, [Send (OutError msg (env_now E))])"
  proof (cases fr)
    case None
    then show ?thesis by (simp add: receive_def send_error_def)
  next
    case (Some v)
    show ?thesis
    proof (cases "\<exists>d. v = JObj d")
      case False
      then show ?thesis using Some receive_not_object by simp
    next
      case True
      then obtain d' where v: "v = JObj d'" by blast
      from inv Some v consider
          "dict_get d' ''type'' JNull \<notin> set (map JStr known_events)"
        | "dict_get d' ''type'' JNull = JStr ''chat_message''" "blank_message d'"
        | "dict_get d' ''type'' JNull = JStr ''message_edit''"
          "blank_message d' \<or> \<not> truthy (dict_get d' ''message_id'' JNull)"
        | "dict_get d' ''type'' JNull = JStr ''message_delete''"
          "\<not> truthy (dict_get d' ''message_id'' JNull)"
        | "dict_get d' ''type'' JNull = JStr ''reaction''"
          "\<not> truthy (dict_get d' ''message_id'' JNull) \<or> \<not> truthy (dict_get d' ''reaction'' JNull)"
        by (auto simp: Let_def)
      then show ?thesis
      proof cases
        case 1 then show ?thesis using Some v receive_unknown by simp
      next
        case 2 then show ?thesis using Some v receive_blank_chat_message by simp
      next
        case 3 then show ?thesis using Some v receive_bad_edit by simp
      next
        case 4 then show ?thesis using Some v receive_bad_delete by simp
      next
        case 5 then show ?thesis using Some v receive_bad_reaction by simp
      qed
    qed
  qed
next
  assume "dict_get d ''type'' JNull = JStr ''read_receipt'' \<and> \<not> truthy (dict_get d ''message_id'' JNull)"
  then show "receive E db c (Some (JObj d)) = (db, [])"
    by (auto simp: receive_def Let_def handle_read_receipt_def split: option.splits)
qed

theorem invalid_frame_yields_error_event_only_witness:
  "invalid_frame (Some (JObj [(''type'', JStr ''chat_message''), (''message'', JStr ''  '')]))
   \<and> (\<exists>msg. receive env1 store2 (consumer_of ''a1'' alice)
                (Some (JObj [(''type'', JStr ''chat_message''), (''message'', JStr ''  '')]))
              = (store2, [Send (OutError msg (env_now env1))]))
   \<and> receive env1 store2 (consumer_of ''a1'' alice) (Some (JObj [(''type'', JStr ''read_receipt'')]))
       = (store2, [])"
proof -
  have inv: "invalid_frame (Some (JObj [(''type'', JStr ''chat_message''), (''message'', JStr ''  '')]))"
    by code_simp
  have rr: "dict_get [(''type'', JStr ''read_receipt'')] ''type'' JNull = JStr ''read_receipt''
            \<and> \<not> truthy (dict_get [(''type'', JStr ''read_receipt'')] ''message_id'' JNull)"
    by code_simp
  from invalid_frame_yields_error_event_only
         [of "Some (JObj [(''type'', JStr ''chat_message''), (''message'', JStr ''  '')])"
             env1 store2 "consumer_of ''a1'' alice" "[(''type'', JStr ''read_receipt'')]"]
  show ?thesis using inv rr by blast
qed

text \<open>
  C3 as stated fails: a read receipt without message id produces no error event (nothing
  is sent), and a reaction of an unknown kind is stored and broadcast instead of being
  rejected.
\<close>

theorem read_receipt_without_id_is_dropped_silently:
  "receive env1 store2 (consumer_of ''a1'' alice) (Some (JObj [(''type'', JStr ''read_receipt'')]))
     = (store2, [])
   \<and> receive env1 store2 (consumer_of ''a1'' alice)
       (Some (JObj [(''type'', JStr ''reaction''), (''message_id'', JStr ''m1''),
                    (''reaction'', JStr ''bogus'')]))
     = (store2\<lparr>message_reactions := [(''m1'', ''alice'', ''bogus'')]\<rparr>,
        [GroupSend ''chat_c1''
           (ReactionBroadcast ''m1'' (JStr ''bogus'') (user_display alice) ''added''
              (Some \<lparr> sr_reaction = JStr ''bogus'', sr_user = user_display alice,
                       sr_created_at = 5 \<rparr>) 5)])"
  by code_simp

subsection \<open>C4: the reaction toggle\<close>



subsection \<open>C5: the handshake\<close>

lemma verify_access_not_participant:
  assumes "\<forall>conv \<in> set (conversations db). conversation_id conv = cid \<longrightarrow> acc_id a \<notin> set (participants conv)"
  shows "verify_conversation_access db cid a = Inr False"
proof -
  from assms have "\<forall>c \<in> set (conversations db). \<not> (conversation_id c = cid \<and> acc_id a \<in> set (participants c))"
    by blast
  from objects_get_none[OF this] show ?thesis by (simp add: verify_conversation_access_def)
qed

lemma verify_access_participant:
  assumes "distinct (map conversation_id (conversations db))"
    and "conv \<in> set (conversations db)" and "conversation_id conv = cid"
    and "acc_id a \<in> set (participants conv)"
  shows "verify_conversation_access db cid a = Inr ((cid, acc_id a) \<notin> set (conversation_deletions db))"
  using objects_get_unique[OF assms(1,2,3), of "\<lambda>c. acc_id a \<in> set (participants c)"] assms(3,4)
  by (simp add: verify_conversation_access_def)

lemma verify_access_deleted:
  assumes "distinct (map conversation_id (conversations db))"
    and "(cid, acc_id a) \<in> set (conversation_deletions db)"
  shows "verify_conversation_access db cid a = Inr False"
proof (cases "\<exists>conv \<in> set (conversations db). conversation_id conv = cid \<and> acc_id a \<in> set (participants conv)")
  case True
  then obtain conv where "conv \<in> set (conversations db)" "conversation_id conv = cid"
    "acc_id a \<in> set (participants conv)" by blast
  from verify_access_participant[OF assms(1) this] assms(2) show ?thesis by simp
next
  case False
  then show ?thesis using verify_access_not_participant[of db cid a] by blast
qed

lemma verify_access_true:
  assumes "verify_conversation_access db cid a = Inr True"
  shows "\<exists>conv \<in> set (conversations db). conversation_id conv = cid \<and> acc_id a \<in> set (participants conv)
           \<and> (cid, acc_id a) \<notin> set (conversation_deletions db)"
proof -
  from assms obtain conv where
    g: "objects_get (filter (\<lambda>c. conversation_id c = cid \<and> acc_id a \<in> set (participants c)) (conversations db)) = Inr conv"
    and nd: "(conversation_id conv, acc_id a) \<notin> set (conversation_deletions db)"
    by (auto simp: verify_conversation_access_def split: sum.splits exn.splits)
  from objects_get_Inr[OF g]
  have "conv \<in> set (filter (\<lambda>c. conversation_id c = cid \<and> acc_id a \<in> set (participants c)) (conversations db))"
    by simp
  then show ?thesis using nd by auto
qed

text \<open>
  C5. At the handshake, when no authenticated identity results from the credentials (in
  particular when the token does not verify) the connection is closed with code 4001 and
  nothing else happens; when the identity is no participant of the conversation of the
  URL, or has a \<open>ConversationDeletion\<close> marker for it, it is closed with code 4003; a
  participant without marker joins the room group and is accepted; and a connection is
  accepted or joins the group only in that last case.
\<close>

theorem handshake_admission:
  "(auth_account (authenticate_user jwt db sc) = None \<longrightarrow>
      snd (connect jwt now db ch sc) = (db, [Close 4001]))
   \<and> (auth_account (authenticate_user jwt db sc) = Some a \<and>
        (\<forall>conv \<in> set (conversations db).
            conversation_id conv = url_conversation_id sc \<longrightarrow> acc_id a \<notin> set (participants conv)) \<longrightarrow>
      snd (connect jwt now db ch sc) = (db, [Close 4003]))
   \<and> (auth_account (authenticate_user jwt db sc) = Some a \<and> store_ok db \<and>
        (url_conversation_id sc, acc_id a) \<in> set (conversation_deletions db) \<longrightarrow>
      snd (connect jwt now db ch sc) = (db, [Close 4003]))
   \<and> (auth_account (authenticate_user jwt db sc) = Some a \<and> store_ok db \<and>
        (\<exists>conv \<in> set (conversations db).
            conversation_id conv = url_conversation_id sc \<and> acc_id a \<in> set (participants conv)) \<and>
        (url_conversation_id sc, acc_id a) \<notin> set (conversation_deletions db) \<longrightarrow>
      (\<exists>db'. snd (connect jwt now db ch sc) =
         (db', [GroupAdd (''chat_'' @ url_conversation_id sc) ch, Accept,
                GroupSend (''chat_'' @ url_conversation_id sc)
                  (StatusBroadcast (user_display a) ''online'' now)])))
   \<and> ((Accept \<in> set (snd (snd (connect jwt now db ch sc)))
        \<or> GroupAdd (''chat_'' @ url_conversation_id sc) ch \<in> set (snd (snd (connect jwt now db ch sc)))) \<longrightarrow>
      (\<exists>u. auth_account (authenticate_user jwt db sc) = Some u \<and>
         (\<exists>conv \<in> set (conversations db).
            conversation_id conv = url_conversation_id sc \<and> acc_id u \<in> set (participants conv)) \<and>
         (url_conversation_id sc, acc_id u) \<notin> set (conversation_deletions db)))
   \<and> (query_token sc = Some t \<and> t \<noteq> [] \<and> jwt t = None \<longrightarrow>
      snd (connect jwt now db ch sc) = (db, [Close 4001]))"
proof (intro conjI impI)
  assume "auth_account (authenticate_user jwt db sc) = None"
  then show "snd (connect jwt now db ch sc) = (db, [Close 4001])"
    by (simp add: connect_def Let_def)
next
  assume "auth_account (authenticate_user jwt db sc) = Some a \<and>
        (\<forall>conv \<in> set (conversations db).
            conversation_id conv = url_conversation_id sc \<longrightarrow> acc_id a \<notin> set (participants conv))"
  then show "snd (connect jwt now db ch sc) = (db, [Close 4003])"
    using verify_access_not_participant[of db "url_conversation_id sc" a]
    by (simp add: connect_def Let_def)
next
  assume "auth_account (authenticate_user jwt db sc) = Some a \<and> store_ok db \<and>
        (url_conversation_id sc, acc_id a) \<in> set (conversation_deletions db)"
  then show "snd (connect jwt now db ch sc) = (db, [Close 4003])"
    using verify_access_deleted[of db "url_conversation_id sc" a]
    by (simp add: connect_def Let_def store_ok_def)
next
  assume h: "auth_account (authenticate_user jwt db sc) = Some a \<and> store_ok db \<and>
        (\<exists>conv \<in> set (conversations db).
            conversation_id conv = url_conversation_id sc \<and> acc_id a \<in> set (participants conv)) \<and>
        (url_conversation_id sc, acc_id a) \<notin> set (conversation_deletions db)"
  then obtain conv where cv: "conv \<in> set (conversations db)"
    "conversation_id conv = url_conversation_id sc" "acc_id a \<in> set (participants conv)" by blast
  from h have dc: "distinct (map conversation_id (conversations db))"
    and du: "distinct (map us_user (user_statuses db))" by (simp_all add: store_ok_def)
  from verify_access_participant[OF dc cv] h
  have v: "verify_conversation_access db (url_conversation_id sc) a = Inr True" by simp
  from set_user_status_total[OF du, of now a "''online''"]
  obtain db' where s: "set_user_status db now a ''online'' = Inr db'" by blast
  have "snd (connect jwt now db ch sc) =
         (db', [GroupAdd (''chat_'' @ url_conversation_id sc) ch, Accept,
                GroupSend (''chat_'' @ url_conversation_id sc)
                  (StatusBroadcast (user_display a) ''online'' now)])"
    using h v s by (simp add: connect_def Let_def)
  then show "\<exists>db'. snd (connect jwt now db ch sc) =
         (db', [GroupAdd (''chat_'' @ url_conversation_id sc) ch, Accept,
                GroupSend (''chat_'' @ url_conversation_id sc)
                  (StatusBroadcast (user_display a) ''online'' now)])" by blast
next
  assume adm: "Accept \<in> set (snd (snd (connect jwt now db ch sc)))
        \<or> GroupAdd (''chat_'' @ url_conversation_id sc) ch \<in> set (snd (snd (connect jwt now db ch sc)))"
  then obtain u where u: "auth_account (authenticate_user jwt db sc) = Some u"
    by (cases "auth_account (authenticate_user jwt db sc)") (auto simp: connect_def Let_def)
  from adm u have "verify_conversation_access db (url_conversation_id sc) u = Inr True"
    by (auto simp: connect_def Let_def split: sum.splits if_splits)
  from verify_access_true[OF this] u
  show "\<exists>u. auth_account (authenticate_user jwt db sc) = Some u \<and>
         (\<exists>conv \<in> set (conversations db).
            conversation_id conv = url_conversation_id sc \<and> acc_id u \<in> set (participants conv)) \<and>
         (url_conversation_id sc, acc_id u) \<notin> set (conversation_deletions db)" by blast
next
  assume "query_token sc = Some t \<and> t \<noteq> [] \<and> jwt t = None"
  then have "authenticate_user jwt db sc = None" by (simp add: authenticate_user_def)
  then show "snd (connect jwt now db ch sc) = (db, [Close 4001])"
    by (simp add: connect_def Let_def)
qed

theorem handshake_admission_witness:
  "snd (connect jwt1 5 store4 ''x1'' (scope_of ''forged'')) = (store4, [Close 4001])
   \<and> snd (connect jwt1 5 store4 ''e1'' (scope_of ''tok_eve'')) = (store4, [Close 4003])
   \<and> snd (connect jwt1 5 store4 ''b1'' (scope_of ''tok_bob'')) = (store4, [Close 4003])
   \<and> (\<exists>db'. snd (connect jwt1 5 store4 ''a1'' (scope_of ''tok_alice'')) =
         (db', [GroupAdd ''chat_c1'' ''a1'', Accept,
                GroupSend ''chat_c1'' (StatusBroadcast (user_display alice) ''online'' 5)]))"
proof -
  have ok: "store_ok store4" by code_simp
  have t: "query_token (scope_of ''forged'') = Some ''forged'' \<and> ''forged'' \<noteq> [] \<and> jwt1 ''forged'' = None"
    by code_simp
  have ue: "auth_account (authenticate_user jwt1 store4 (scope_of ''tok_eve'')) = Some eve" by code_simp
  have ub: "auth_account (authenticate_user jwt1 store4 (scope_of ''tok_bob'')) = Some bob" by code_simp
  have ua: "auth_account (authenticate_user jwt1 store4 (scope_of ''tok_alice'')) = Some alice" by code_simp
  have ne: "\<forall>conv \<in> set (conversations store4).
              conversation_id conv = url_conversation_id (scope_of ''tok_eve'') \<longrightarrow>
              acc_id eve \<notin> set (participants conv)" by code_simp
  have db: "(url_conversation_id (scope_of ''tok_bob''), acc_id bob) \<in> set (conversation_deletions store4)"
    by code_simp
  have pa: "\<exists>conv \<in> set (conversations store4).
              conversation_id conv = url_conversation_id (scope_of ''tok_alice'') \<and>
              acc_id alice \<in> set (participants conv)" by code_simp
  have na: "(url_conversation_id (scope_of ''tok_alice''), acc_id alice) \<notin> set (conversation_deletions store4)"
    by code_simp
  have u: "url_conversation_id (scope_of ''tok_alice'') = ''c1''" by (simp add: scope_of_def)
  have 1: "snd (connect jwt1 5 store4 ''x1'' (scope_of ''forged'')) = (store4, [Close 4001])"
    using handshake_admission[of jwt1 store4 "scope_of ''forged''" 5 "''x1''" alice "''forged''"] t
    by blast
  have 2: "snd (connect jwt1 5 store4 ''e1'' (scope_of ''tok_eve'')) = (store4, [Close 4003])"
    using handshake_admission[of jwt1 store4 "scope_of ''tok_eve''" 5 "''e1''" eve "''x''"] ue ne
    by blast
  have 3: "snd (connect jwt1 5 store4 ''b1'' (scope_of ''tok_bob'')) = (store4, [Close 4003])"
    using handshake_admission[of jwt1 store4 "scope_of ''tok_bob''" 5 "''b1''" bob "''x''"] ub ok db
    by blast
  have 4: "\<exists>db'. snd (connect jwt1 5 store4 ''a1'' (scope_of ''tok_alice'')) =
         (db', [GroupAdd (''chat_'' @ url_conversation_id (scope_of ''tok_alice'')) ''a1'', Accept,
                GroupSend (''chat_'' @ url_conversation_id (scope_of ''tok_alice''))
                  (StatusBroadcast (user_display alice) ''online'' 5)])"
    using handshake_admission[of jwt1 store4 "scope_of ''tok_alice''" 5 "''a1''" alice "''x''"] ua ok pa na
    by blast
  from 1 2 3 4 show ?thesis unfolding u by simp
qed

subsection \<open>C6: sending a message\<close>




subsection \<open>C8: the REST views publish like the consumer\<close>









lemma newest_mem: "newest xs = Some m \<Longrightarrow> m \<in> set xs"
  by (induction xs arbitrary: m) (auto split: option.splits if_splits)

lemma latest_message_for_mem:
  assumes "latest_message_for db conv a = Some m"
  shows "m \<in> set (messages db) \<and> msg_conversation m = conversation_id conv"
  using newest_mem[OF assms[unfolded latest_message_for_def]] by simp
































subsection \<open>C10: restoring a message\<close>



end
